theory Spec2Isabelle
  imports Complex_Main
begin

section \<open>Data model of the fluid solver\<close>

text \<open>
  The repository holds several generations of one particle fluid solver (fluid.js).
  The function verified here is \<open>updatePhysics\<close>, which advances all particles by one
  frame.  JavaScript numbers are idealised as real numbers: rounding, overflow and the
  non-finite values of IEEE arithmetic are outside this part of the model (the one place
  where the code can divide zero by zero is treated separately, with the special values
  made explicit).

  \<open>CONFIG\<close> is a constant object of the source; here it is a record, so that the
  theorems hold for every generation's constants.
\<close>

record config =
  particleCount :: nat
  radius :: real
  physRadius :: real
  gravityScale :: real
  damping :: real
  stiffness :: real
  stiffnessNear :: real
  restDensity :: real
  interactionRadius :: real
  subSteps :: nat

text \<open>The constants of the "V5" generation (volumetric thickness).\<close>

definition CONFIG_V5 :: config where
  "CONFIG_V5 = \<lparr> particleCount = 900, radius = 20, physRadius = 15,
     gravityScale = 18 / 100, damping = 96 / 100, stiffness = 2 / 100,
     stiffnessNear = 1 / 10, restDensity = 3, interactionRadius = 120, subSteps = 2 \<rparr>"

text \<open>The constants of the "Realistic AR Water Simulation" generation.\<close>

definition CONFIG_AR :: config where
  "CONFIG_AR = \<lparr> particleCount = 1500, radius = 12, physRadius = 10,
     gravityScale = 15 / 100, damping = 985 / 1000, stiffness = 4 / 100,
     stiffnessNear = 1 / 10, restDensity = 4, interactionRadius = 80, subSteps = 3 \<rparr>"

text \<open>The constants of the "High Performance" (PBF lite) generation.\<close>

definition CONFIG_LITE :: config where
  "CONFIG_LITE = \<lparr> particleCount = 1500, radius = 12, physRadius = 10,
     gravityScale = 15 / 100, damping = 99 / 100, stiffness = 8 / 100,
     stiffnessNear = 1 / 10, restDensity = 5, interactionRadius = 80, subSteps = 2 \<rparr>"

text \<open>
  \<open>particles\<close> is an object of six \<open>Float32Array\<close>s, each allocated with
  \<open>CONFIG.particleCount\<close> elements.  The fields \<open>x\<close>, \<open>y\<close>, \<open>vx\<close>, \<open>vy\<close> are
  called \<open>pX\<close>, \<open>pY\<close>, \<open>vX\<close>, \<open>vY\<close> here.
\<close>

record particleSet =
  pX :: "real list"
  pY :: "real list"
  vX :: "real list"
  vY :: "real list"
  prevX :: "real list"
  prevY :: "real list"

text \<open>The allocation invariant of the six typed arrays.\<close>

definition allocated :: "config \<Rightarrow> particleSet \<Rightarrow> bool" where
  "allocated cfg ps \<longleftrightarrow>
     length (pX ps) = particleCount cfg \<and> length (pY ps) = particleCount cfg \<and>
     length (vX ps) = particleCount cfg \<and> length (vY ps) = particleCount cfg \<and>
     length (prevX ps) = particleCount cfg \<and> length (prevY ps) = particleCount cfg"

text \<open>
  What the caller owns: the canvas size \<open>width\<close>, \<open>height\<close>, the window's
  \<open>innerWidth\<close>, the \<open>gravity\<close> vector and the \<open>pointer\<close>.
\<close>

record env =
  width :: real
  height :: real
  innerWidth :: real
  gravityX :: real
  gravityY :: real
  pointerX :: real
  pointerY :: real
  pointerDown :: bool

text \<open>
  The global \<open>grid\<close> is an object whose keys are the strings \<open>gx + "," + gy\<close> of two
  floored cell coordinates; two pairs of integers give the same string only when they are
  equal, so the key is the pair itself.  \<open>gridBuilds\<close> is a ghost counter, not a
  variable of the program: it counts the executions of the statement \<open>grid = {}\<close>.
\<close>

record state =
  particles :: particleSet
  grid :: "int \<times> int \<rightharpoonup> nat list"
  gridBuilds :: nat

section \<open>One frame: \<open>updatePhysics\<close>\<close>

text \<open>\<open>a[i] += v\<close> on a typed array.\<close>

definition addAt :: "real list \<Rightarrow> nat \<Rightarrow> real \<Rightarrow> real list" where
  "addAt a i v = a[i := a ! i + v]"

definition GRID_SIZE :: "config \<Rightarrow> real" where
  "GRID_SIZE cfg = physRadius cfg * 2"

subsection \<open>Prediction\<close>

text \<open>
  The body of the first loop.  The generations differ in two places only, which are
  parameters here: \<open>dpr\<close>, the factor applied to the pointer position and to the
  interaction radius (\<open>width / window.innerWidth\<close> in V5, absent, that is 1, in the
  others), and \<open>gain\<close>, the literal that scales the repulsion (4.0, 3 or 2.0).
\<close>

definition predictParticle :: "config \<Rightarrow> env \<Rightarrow> real \<Rightarrow> real \<Rightarrow> particleSet \<Rightarrow> nat \<Rightarrow> particleSet" where
  "predictParticle cfg e dpr gain ps i =
    (let ps1 = ps\<lparr> vX := addAt (vX ps) i (gravityX e * gravityScale cfg),
                    vY := addAt (vY ps) i (gravityY e * gravityScale cfg) \<rparr>;
         ps2 = (if pointerDown e then
                  (let dx = pX ps1 ! i - pointerX e * dpr;
                       dy = pY ps1 ! i - pointerY e * dpr;
                       d2 = dx * dx + dy * dy;
                       iR = interactionRadius cfg * dpr
                   in if d2 < iR * iR then
                        (let d = sqrt d2;
                             f = (1 - d / iR) * gain
                         in ps1\<lparr> vX := addAt (vX ps1) i ((dx / d) * f),
                                  vY := addAt (vY ps1) i ((dy / d) * f) \<rparr>)
                      else ps1)
                else ps1);
         ps3 = ps2\<lparr> prevX := (prevX ps2)[i := pX ps2 ! i],
                     prevY := (prevY ps2)[i := pY ps2 ! i] \<rparr>
     in ps3\<lparr> pX := addAt (pX ps3) i (vX ps3 ! i),
              pY := addAt (pY ps3) i (vY ps3 ! i) \<rparr>)"

definition predict :: "config \<Rightarrow> env \<Rightarrow> real \<Rightarrow> real \<Rightarrow> particleSet \<Rightarrow> particleSet" where
  "predict cfg e dpr gain ps = fold (\<lambda>i ps. predictParticle cfg e dpr gain ps i) [0..<particleCount cfg] ps"

subsection \<open>The spatial hash grid\<close>

definition gridKey :: "config \<Rightarrow> real \<Rightarrow> real \<Rightarrow> int \<times> int" where
  "gridKey cfg a b = (\<lfloor>a / GRID_SIZE cfg\<rfloor>, \<lfloor>b / GRID_SIZE cfg\<rfloor>)"

text \<open>\<open>if(!grid[k]) grid[k]=[]; grid[k].push(i);\<close>\<close>

definition gridInsert :: "config \<Rightarrow> particleSet \<Rightarrow> nat \<Rightarrow> (int \<times> int \<rightharpoonup> nat list) \<Rightarrow> (int \<times> int \<rightharpoonup> nat list)" where
  "gridInsert cfg ps i g =
    (let k = gridKey cfg (pX ps ! i) (pY ps ! i)
     in g(k \<mapsto> (case g k of None \<Rightarrow> [] | Some cell \<Rightarrow> cell) @ [i]))"

text \<open>\<open>grid = {}\<close> followed by the insertion loop.\<close>

definition buildGrid :: "config \<Rightarrow> particleSet \<Rightarrow> (int \<times> int \<rightharpoonup> nat list)" where
  "buildGrid cfg ps = fold (gridInsert cfg ps) [0..<particleCount cfg] Map.empty"

definition rebuildGrid :: "config \<Rightarrow> state \<Rightarrow> state" where
  "rebuildGrid cfg st =
     st\<lparr> grid := buildGrid cfg (particles st), gridBuilds := Suc (gridBuilds st) \<rparr>"

subsection \<open>Relaxation of one particle\<close>

text \<open>
  The two nested loops \<open>x = gx-1 .. gx+1\<close>, \<open>y = gy-1 .. gy+1\<close> visit nine keys in this
  order; \<open>candidates\<close> is the sequence of indices the innermost loop then runs through.
\<close>

definition block3 :: "int \<Rightarrow> int \<Rightarrow> (int \<times> int) list" where
  "block3 gx gy = concat (map (\<lambda>x. map (\<lambda>y. (x, y)) [gy - 1, gy, gy + 1]) [gx - 1, gx, gx + 1])"

definition candidates :: "(int \<times> int \<rightharpoonup> nat list) \<Rightarrow> int \<Rightarrow> int \<Rightarrow> nat list" where
  "candidates g gx gy =
     concat (map (\<lambda>k. case g k of None \<Rightarrow> [] | Some cell \<Rightarrow> cell) (block3 gx gy))"

text \<open>An element of the array \<open>neighbors\<close>: \<open>{id, d, dx, dy}\<close>.\<close>

record neighbor =
  nid :: nat
  nd :: real
  ndx :: real
  ndy :: real

definition scan :: "config \<Rightarrow> particleSet \<Rightarrow> nat \<Rightarrow> nat \<Rightarrow> neighbor list \<Rightarrow> neighbor list" where
  "scan cfg ps i j neighbors =
    (if i = j then neighbors
     else (let dx = pX ps ! j - pX ps ! i;
               dy = pY ps ! j - pY ps ! i;
               d2 = dx * dx + dy * dy
           in if d2 < GRID_SIZE cfg * GRID_SIZE cfg \<and> d2 > 1 / 1000
              then neighbors @ [\<lparr> nid = j, nd = sqrt d2, ndx = dx, ndy = dy \<rparr>]
              else neighbors))"

definition findNeighbors :: "config \<Rightarrow> (int \<times> int \<rightharpoonup> nat list) \<Rightarrow> particleSet \<Rightarrow> nat \<Rightarrow> neighbor list" where
  "findNeighbors cfg g ps i =
    (let gx = \<lfloor>pX ps ! i / GRID_SIZE cfg\<rfloor>;
         gy = \<lfloor>pY ps ! i / GRID_SIZE cfg\<rfloor>
     in fold (scan cfg ps i) (candidates g gx gy) [])"

text \<open>\<open>let q=1-n.d/GRID_SIZE; rho+=q*q; rhoNear+=q*q*q;\<close>\<close>

fun accumulateDensity :: "config \<Rightarrow> neighbor \<Rightarrow> real \<times> real \<Rightarrow> real \<times> real" where
  "accumulateDensity cfg n (rho, rhoNear) =
     (let q = 1 - nd n / GRID_SIZE cfg in (rho + q * q, rhoNear + q * q * q))"

definition pressure :: "config \<Rightarrow> real \<Rightarrow> real" where
  "pressure cfg rho = stiffness cfg * (rho - restDensity cfg)"

definition nearPressure :: "config \<Rightarrow> real \<Rightarrow> real" where
  "nearPressure cfg rhoNear = stiffnessNear cfg * rhoNear"

text \<open>The body of the second loop over \<open>neighbors\<close>.\<close>

fun displace :: "config \<Rightarrow> real \<Rightarrow> real \<Rightarrow> neighbor \<Rightarrow> particleSet \<times> real \<times> real \<Rightarrow> particleSet \<times> real \<times> real" where
  "displace cfg P PNear n (ps, dx, dy) =
     (let q = 1 - nd n / GRID_SIZE cfg;
          D = (1 / 2) * (P * q + PNear * q * q);
          ux = (ndx n / nd n) * D;
          uy = (ndy n / nd n) * D
      in (ps\<lparr> pX := addAt (pX ps) (nid n) ux, pY := addAt (pY ps) (nid n) uy \<rparr>,
          dx - ux, dy - uy))"

definition relaxParticle :: "config \<Rightarrow> (int \<times> int \<rightharpoonup> nat list) \<Rightarrow> particleSet \<Rightarrow> nat \<Rightarrow> particleSet" where
  "relaxParticle cfg g ps i =
    (let neighbors = findNeighbors cfg g ps i;
         (rho, rhoNear) = fold (accumulateDensity cfg) neighbors (0, 0);
         P = pressure cfg rho;
         PNear = nearPressure cfg rhoNear;
         (ps', dx, dy) = fold (displace cfg P PNear) neighbors (ps, 0, 0)
     in ps'\<lparr> pX := addAt (pX ps') i dx, pY := addAt (pY ps') i dy \<rparr>)"

definition relax :: "config \<Rightarrow> (int \<times> int \<rightharpoonup> nat list) \<Rightarrow> particleSet \<Rightarrow> particleSet" where
  "relax cfg g ps = fold (\<lambda>i ps. relaxParticle cfg g ps i) [0..<particleCount cfg] ps"

subsection \<open>Boundaries\<close>

text \<open>The four \<open>if\<close> statements that end a substep, with \<open>m = CONFIG.radius\<close>.\<close>

definition enforceParticle :: "config \<Rightarrow> env \<Rightarrow> particleSet \<Rightarrow> nat \<Rightarrow> particleSet" where
  "enforceParticle cfg e ps i =
    (let m = radius cfg;
         x1 = (if pX ps ! i < m then (pX ps)[i := m] else pX ps);
         x2 = (if x1 ! i > width e - m then x1[i := width e - m] else x1);
         y1 = (if pY ps ! i < m then (pY ps)[i := m] else pY ps);
         y2 = (if y1 ! i > height e - m then y1[i := height e - m] else y1)
     in ps\<lparr> pX := x2, pY := y2 \<rparr>)"

definition enforceBounds :: "config \<Rightarrow> env \<Rightarrow> particleSet \<Rightarrow> particleSet" where
  "enforceBounds cfg e ps = fold (\<lambda>i ps. enforceParticle cfg e ps i) [0..<particleCount cfg] ps"

subsection \<open>Substeps, velocity reconstruction and the frame\<close>

text \<open>The body of the loop \<open>for(let s=0; s<CONFIG.subSteps; s++)\<close>.\<close>

definition substep :: "config \<Rightarrow> env \<Rightarrow> state \<Rightarrow> state" where
  "substep cfg e st =
    (let st1 = rebuildGrid cfg st;
         ps1 = relax cfg (grid st1) (particles st1)
     in st1\<lparr> particles := enforceBounds cfg e ps1 \<rparr>)"

fun substeps :: "config \<Rightarrow> env \<Rightarrow> nat \<Rightarrow> state \<Rightarrow> state" where
  "substeps cfg e 0 st = st"
| "substeps cfg e (Suc k) st = substeps cfg e k (substep cfg e st)"

definition reconcileParticle :: "config \<Rightarrow> particleSet \<Rightarrow> nat \<Rightarrow> particleSet" where
  "reconcileParticle cfg ps i =
     ps\<lparr> vX := (vX ps)[i := (pX ps ! i - prevX ps ! i) * damping cfg],
         vY := (vY ps)[i := (pY ps ! i - prevY ps ! i) * damping cfg] \<rparr>"

definition reconcile :: "config \<Rightarrow> particleSet \<Rightarrow> particleSet" where
  "reconcile cfg ps = fold (\<lambda>i ps. reconcileParticle cfg ps i) [0..<particleCount cfg] ps"

definition updatePhysics :: "config \<Rightarrow> real \<Rightarrow> real \<Rightarrow> env \<Rightarrow> state \<Rightarrow> state" where
  "updatePhysics cfg dpr gain e st =
    (let st1 = st\<lparr> particles := predict cfg e dpr gain (particles st) \<rparr>;
         st2 = substeps cfg e (subSteps cfg) st1
     in st2\<lparr> particles := reconcile cfg (particles st2) \<rparr>)"

text \<open>
  The three generations that share this frame: V5, "Debug Mode" (whose constants are
  those of "AR Water Simulation") and "AR Water Simulation".
\<close>

definition updatePhysics_V5 :: "env \<Rightarrow> state \<Rightarrow> state" where
  "updatePhysics_V5 e st = updatePhysics CONFIG_V5 (width e / innerWidth e) 4 e st"

definition updatePhysics_Debug :: "env \<Rightarrow> state \<Rightarrow> state" where
  "updatePhysics_Debug e st = updatePhysics CONFIG_AR 1 4 e st"

definition updatePhysics_AR :: "env \<Rightarrow> state \<Rightarrow> state" where
  "updatePhysics_AR e st = updatePhysics CONFIG_AR 1 3 e st"

section \<open>The "High Performance" generation of \<open>updatePhysics\<close>\<close>

text \<open>
  This generation runs the same prediction (no \<open>dpr\<close>, gain 2.0) and clamps each
  particle at once, inside the first loop; it builds the grid in a step of its own
  ("2. Build Grid") that precedes the loop over the substeps; its substep is the
  relaxation followed by a clamp written with \<open>else if\<close>.
\<close>

definition predictParticle_lite :: "config \<Rightarrow> env \<Rightarrow> particleSet \<Rightarrow> nat \<Rightarrow> particleSet" where
  "predictParticle_lite cfg e ps i = enforceParticle cfg e (predictParticle cfg e 1 2 ps i) i"

definition predict_lite :: "config \<Rightarrow> env \<Rightarrow> particleSet \<Rightarrow> particleSet" where
  "predict_lite cfg e ps = fold (\<lambda>i ps. predictParticle_lite cfg e ps i) [0..<particleCount cfg] ps"

definition enforceParticle_lite :: "config \<Rightarrow> env \<Rightarrow> particleSet \<Rightarrow> nat \<Rightarrow> particleSet" where
  "enforceParticle_lite cfg e ps i =
    (let margin = radius cfg;
         x1 = (if pX ps ! i < margin then (pX ps)[i := margin]
               else if pX ps ! i > width e - margin then (pX ps)[i := width e - margin]
               else pX ps);
         y1 = (if pY ps ! i < margin then (pY ps)[i := margin]
               else if pY ps ! i > height e - margin then (pY ps)[i := height e - margin]
               else pY ps)
     in ps\<lparr> pX := x1, pY := y1 \<rparr>)"

definition enforceBounds_lite :: "config \<Rightarrow> env \<Rightarrow> particleSet \<Rightarrow> particleSet" where
  "enforceBounds_lite cfg e ps = fold (\<lambda>i ps. enforceParticle_lite cfg e ps i) [0..<particleCount cfg] ps"

text \<open>The body of \<open>for (let step = 0; step < CONFIG.subSteps; step++)\<close>: it reads \<open>grid\<close>.\<close>

definition substep_lite :: "config \<Rightarrow> env \<Rightarrow> state \<Rightarrow> state" where
  "substep_lite cfg e st =
     st\<lparr> particles := enforceBounds_lite cfg e (relax cfg (grid st) (particles st)) \<rparr>"

fun substeps_lite :: "config \<Rightarrow> env \<Rightarrow> nat \<Rightarrow> state \<Rightarrow> state" where
  "substeps_lite cfg e 0 st = st"
| "substeps_lite cfg e (Suc k) st = substeps_lite cfg e k (substep_lite cfg e st)"

definition updatePhysics_lite :: "config \<Rightarrow> env \<Rightarrow> state \<Rightarrow> state" where
  "updatePhysics_lite cfg e st =
    (let st1 = st\<lparr> particles := predict_lite cfg e (particles st) \<rparr>;
         st2 = rebuildGrid cfg st1;
         st3 = substeps_lite cfg e (subSteps cfg) st2
     in st3\<lparr> particles := reconcile cfg (particles st3) \<rparr>)"

section \<open>The first generation: \<open>Particle.update\<close> of water.js\<close>

text \<open>
  The earliest solver (water.js) has no grid, no substeps and no physics radius: each
  particle is an object with its own visual \<open>radius\<close>.  Only the last part of
  \<open>Particle.update\<close>, the screen boundaries, is modelled: a reflecting clamp with that
  radius as margin, written with \<open>else if\<close>.
\<close>

record waterParticle =
  wx :: real
  wy :: real
  wvx :: real
  wvy :: real
  wradius :: real

definition Particle_update_boundaries :: "real \<Rightarrow> real \<Rightarrow> waterParticle \<Rightarrow> waterParticle" where
  "Particle_update_boundaries w h p =
    (let bounce = - (7 / 10);
         p1 = (if wx p < wradius p then p\<lparr> wx := wradius p, wvx := wvx p * bounce \<rparr>
               else if wx p > w - wradius p then p\<lparr> wx := w - wradius p, wvx := wvx p * bounce \<rparr>
               else p)
     in (if wy p1 < wradius p1 then p1\<lparr> wy := wradius p1, wvy := wvy p1 * bounce \<rparr>
         else if wy p1 > h - wradius p1 then p1\<lparr> wy := h - wradius p1, wvy := wvy p1 * bounce \<rparr>
         else p1))"

section \<open>Auxiliary notions and concrete inputs\<close>

text \<open>The closed interval clamp with margin \<open>m\<close> inside \<open>[0, b]\<close>.\<close>

definition clampTo :: "real \<Rightarrow> real \<Rightarrow> real \<Rightarrow> real" where
  "clampTo m b c = min (max c m) (b - m)"

text \<open>The V5 constants with a single particle, two canvases and a state of one particle.\<close>

definition cfg1 :: config where
  "cfg1 = CONFIG_V5\<lparr> particleCount := 1 \<rparr>"

definition narrow :: env where
  "narrow = \<lparr> width = 32, height = 100, innerWidth = 32, gravityX = 0, gravityY = 1,
      pointerX = - 1000, pointerY = - 1000, pointerDown = False \<rparr>"

definition wide :: env where
  "wide = \<lparr> width = 1000, height = 800, innerWidth = 1000, gravityX = 0, gravityY = 1,
      pointerX = - 1000, pointerY = - 1000, pointerDown = False \<rparr>"

definition lone :: "real \<Rightarrow> real \<Rightarrow> state" where
  "lone a b = \<lparr> particles = \<lparr> pX = [a], pY = [b], vX = [0], vY = [0], prevX = [a], prevY = [b] \<rparr>,
       grid = Map.empty, gridBuilds = 0 \<rparr>"

text \<open>
  The velocity change that the pointer branch of the prediction adds to a particle at
  \<open>(a, b)\<close>; \<open>(0, 0)\<close> when the branch is not taken.
\<close>

definition impulse :: "config \<Rightarrow> env \<Rightarrow> real \<Rightarrow> real \<Rightarrow> real \<Rightarrow> real \<Rightarrow> real \<times> real" where
  "impulse cfg e dpr gain a b =
    (if pointerDown e then
       (let dx = a - pointerX e * dpr;
            dy = b - pointerY e * dpr;
            d2 = dx * dx + dy * dy;
            iR = interactionRadius cfg * dpr
        in if d2 < iR * iR then
             (let d = sqrt d2; f = (1 - d / iR) * gain in ((dx / d) * f, (dy / d) * f))
           else (0, 0))
     else (0, 0))"

text \<open>
  Loops that treat particle \<open>i\<close> from its own six values only: \<open>particle\<close> reads them,
  \<open>setParticle\<close> writes them, and \<open>mapFirst N n F\<close> is the particle set in which the first
  \<open>n\<close> particles have been replaced by their images under \<open>F\<close>.
\<close>

type_synonym particle = "real \<times> real \<times> real \<times> real \<times> real \<times> real"

definition particle :: "particleSet \<Rightarrow> nat \<Rightarrow> particle" where
  "particle ps i = (pX ps ! i, pY ps ! i, vX ps ! i, vY ps ! i, prevX ps ! i, prevY ps ! i)"

fun setParticle :: "particleSet \<Rightarrow> nat \<Rightarrow> particle \<Rightarrow> particleSet" where
  "setParticle ps i (a, b, c, d, p, q) =
     ps\<lparr> pX := (pX ps)[i := a], pY := (pY ps)[i := b], vX := (vX ps)[i := c],
         vY := (vY ps)[i := d], prevX := (prevX ps)[i := p], prevY := (prevY ps)[i := q] \<rparr>"

definition firstN :: "nat \<Rightarrow> nat \<Rightarrow> (nat \<Rightarrow> real) \<Rightarrow> real list \<Rightarrow> real list" where
  "firstN N n f a = map (\<lambda>i. if i < n then f i else a ! i) [0..<N]"

definition mapFirst :: "nat \<Rightarrow> nat \<Rightarrow> (particle \<Rightarrow> particle) \<Rightarrow> particleSet \<Rightarrow> particleSet" where
  "mapFirst N n F ps =
     ps\<lparr> pX := firstN N n (\<lambda>i. fst (F (particle ps i))) (pX ps),
         pY := firstN N n (\<lambda>i. fst (snd (F (particle ps i)))) (pY ps),
         vX := firstN N n (\<lambda>i. fst (snd (snd (F (particle ps i))))) (vX ps),
         vY := firstN N n (\<lambda>i. fst (snd (snd (snd (F (particle ps i)))))) (vY ps),
         prevX := firstN N n (\<lambda>i. fst (snd (snd (snd (snd (F (particle ps i))))))) (prevX ps),
         prevY := firstN N n (\<lambda>i. snd (snd (snd (snd (snd (F (particle ps i))))))) (prevY ps) \<rparr>"

text \<open>The per-particle functions of the loops of \<open>updatePhysics\<close>.\<close>

fun predictOne :: "config \<Rightarrow> env \<Rightarrow> real \<Rightarrow> real \<Rightarrow> particle \<Rightarrow> particle" where
  "predictOne cfg e dpr gain (a, b, c, d, p, q) =
    (let c' = c + gravityX e * gravityScale cfg + fst (impulse cfg e dpr gain a b);
         d' = d + gravityY e * gravityScale cfg + snd (impulse cfg e dpr gain a b)
     in (a + c', b + d', c', d', a, b))"

fun enforceOne :: "config \<Rightarrow> env \<Rightarrow> particle \<Rightarrow> particle" where
  "enforceOne cfg e (a, b, c, d, p, q) =
     (clampTo (radius cfg) (width e) a, clampTo (radius cfg) (height e) b, c, d, p, q)"

fun reconcileOne :: "config \<Rightarrow> particle \<Rightarrow> particle" where
  "reconcileOne cfg (a, b, c, d, p, q) = (a, b, (a - p) * damping cfg, (b - q) * damping cfg, p, q)"

text \<open>\<open>ps'\<close> differs from \<open>ps\<close> in the contents of the position arrays only.\<close>

definition positionsOnly :: "particleSet \<Rightarrow> particleSet \<Rightarrow> bool" where
  "positionsOnly ps ps' \<longleftrightarrow>
     vX ps' = vX ps \<and> vY ps' = vY ps \<and> prevX ps' = prevX ps \<and> prevY ps' = prevY ps \<and>
     length (pX ps') = length (pX ps) \<and> length (pY ps') = length (pY ps)"

text \<open>One substep as a function of the particle set at its start alone.\<close>

definition substepP :: "config \<Rightarrow> env \<Rightarrow> particleSet \<Rightarrow> particleSet" where
  "substepP cfg e ps = enforceBounds cfg e (relax cfg (buildGrid cfg ps) ps)"

text \<open>A configuration and a state without particles.\<close>

definition cfg0 :: config where
  "cfg0 = CONFIG_V5\<lparr> particleCount := 0 \<rparr>"

definition noParticles :: state where
  "noParticles = \<lparr> particles = \<lparr> pX = [], pY = [], vX = [], vY = [], prevX = [], prevY = [] \<rparr>,
       grid = Map.empty, gridBuilds = 0 \<rparr>"

text \<open>The V5 constants with two particles, 15 apart on a horizontal line.\<close>

definition cfg2 :: config where
  "cfg2 = CONFIG_V5\<lparr> particleCount := 2 \<rparr>"

definition twoNear :: particleSet where
  "twoNear = \<lparr> pX = [85, 100], pY = [100, 100], vX = [0, 0], vY = [0, 0],
            prevX = [85, 100], prevY = [100, 100] \<rparr>"

text \<open>Two particles in neighbouring cells, 34 apart: farther than the cutoff of 30.\<close>

definition twoApart :: particleSet where
  "twoApart = \<lparr> pX = [85, 119], pY = [100, 100], vX = [0, 0], vY = [0, 0],
             prevX = [85, 119], prevY = [100, 100] \<rparr>"

text \<open>
  An input for the "High Performance" frame: its constants with three particles at rest,
  at (39.99, 50), (60.02, 50) and (55.22, 64); no gravity, pointer up.
\<close>

definition cfg3 :: config where
  "cfg3 = CONFIG_LITE\<lparr> particleCount := 3 \<rparr>"

definition still :: env where
  "still = \<lparr> width = 1000, height = 800, innerWidth = 1000, gravityX = 0, gravityY = 0,
      pointerX = - 1000, pointerY = - 1000, pointerDown = False \<rparr>"

definition three :: state where
  "three = \<lparr> particles = \<lparr> pX = [3999 / 100, 6002 / 100, 5522 / 100], pY = [50, 50, 64],
       vX = [0, 0, 0], vY = [0, 0, 0],
       prevX = [3999 / 100, 6002 / 100, 5522 / 100], prevY = [50, 50, 64] \<rparr>,
       grid = Map.empty, gridBuilds = 0 \<rparr>"

text \<open>The state of that frame when the grid has been built, and after its first substep.\<close>

definition three_built :: state where
  "three_built = rebuildGrid cfg3 (three\<lparr> particles := predict_lite cfg3 still (particles three) \<rparr>)"

definition three_relaxed :: state where
  "three_relaxed = substep_lite cfg3 still three_built"

section \<open>The reference definition of double density relaxation\<close>

text \<open>
  One relaxation of particle \<open>i\<close> as the specification words it: the true neighbours are
  the candidates at squared distance below \<open>cellSize\<^sup>2\<close> and above 0.001; with
  \<open>q = 1 - d / cellSize\<close> the densities are the sums of \<open>q\<^sup>2\<close> and \<open>q\<^sup>3\<close>; the pressures are
  \<open>stiffness * (rho - restDensity)\<close> and \<open>stiffnessNear * rhoNear\<close>; the displacement of
  neighbour \<open>j\<close> is \<open>0.5 * (P * q + PNear * q\<^sup>2)\<close> times the unit vector from \<open>i\<close> to \<open>j\<close>,
  added to \<open>j\<close> at once, and the negated sum of the displacements is added to \<open>i\<close> after
  the loop.  All distances are those at the start of the relaxation of \<open>i\<close>.
\<close>

definition dist2 :: "particleSet \<Rightarrow> nat \<Rightarrow> nat \<Rightarrow> real" where
  "dist2 ps i j = (pX ps ! j - pX ps ! i) * (pX ps ! j - pX ps ! i)
                + (pY ps ! j - pY ps ! i) * (pY ps ! j - pY ps ! i)"

definition trueNeighbors_ref :: "config \<Rightarrow> (int \<times> int \<rightharpoonup> nat list) \<Rightarrow> particleSet \<Rightarrow> nat \<Rightarrow> nat list" where
  "trueNeighbors_ref cfg g ps i =
     filter (\<lambda>j. dist2 ps i j < (GRID_SIZE cfg)\<^sup>2 \<and> dist2 ps i j > 1 / 1000)
       (candidates g \<lfloor>pX ps ! i / GRID_SIZE cfg\<rfloor> \<lfloor>pY ps ! i / GRID_SIZE cfg\<rfloor>)"

definition q_ref :: "config \<Rightarrow> particleSet \<Rightarrow> nat \<Rightarrow> nat \<Rightarrow> real" where
  "q_ref cfg ps i j = 1 - sqrt (dist2 ps i j) / GRID_SIZE cfg"

definition rho_ref :: "config \<Rightarrow> (int \<times> int \<rightharpoonup> nat list) \<Rightarrow> particleSet \<Rightarrow> nat \<Rightarrow> real" where
  "rho_ref cfg g ps i = (\<Sum>j\<leftarrow>trueNeighbors_ref cfg g ps i. (q_ref cfg ps i j)\<^sup>2)"

definition rhoNear_ref :: "config \<Rightarrow> (int \<times> int \<rightharpoonup> nat list) \<Rightarrow> particleSet \<Rightarrow> nat \<Rightarrow> real" where
  "rhoNear_ref cfg g ps i = (\<Sum>j\<leftarrow>trueNeighbors_ref cfg g ps i. (q_ref cfg ps i j) ^ 3)"

definition P_ref :: "config \<Rightarrow> (int \<times> int \<rightharpoonup> nat list) \<Rightarrow> particleSet \<Rightarrow> nat \<Rightarrow> real" where
  "P_ref cfg g ps i = stiffness cfg * (rho_ref cfg g ps i - restDensity cfg)"

definition PNear_ref :: "config \<Rightarrow> (int \<times> int \<rightharpoonup> nat list) \<Rightarrow> particleSet \<Rightarrow> nat \<Rightarrow> real" where
  "PNear_ref cfg g ps i = stiffnessNear cfg * rhoNear_ref cfg g ps i"

definition delta_ref :: "config \<Rightarrow> (int \<times> int \<rightharpoonup> nat list) \<Rightarrow> particleSet \<Rightarrow> nat \<Rightarrow> nat \<Rightarrow> real \<times> real" where
  "delta_ref cfg g ps i j =
    (let q = q_ref cfg ps i j;
         D = (1 / 2) * (P_ref cfg g ps i * q + PNear_ref cfg g ps i * q\<^sup>2);
         d = sqrt (dist2 ps i j)
     in (D * ((pX ps ! j - pX ps ! i) / d), D * ((pY ps ! j - pY ps ! i) / d)))"

definition relaxParticle_ref :: "config \<Rightarrow> (int \<times> int \<rightharpoonup> nat list) \<Rightarrow> particleSet \<Rightarrow> nat \<Rightarrow> particleSet" where
  "relaxParticle_ref cfg g ps i =
    (let N = trueNeighbors_ref cfg g ps i;
         moved = fold (\<lambda>j s. s\<lparr> pX := addAt (pX s) j (fst (delta_ref cfg g ps i j)),
                               pY := addAt (pY s) j (snd (delta_ref cfg g ps i j)) \<rparr>) N ps
     in moved\<lparr> pX := addAt (pX moved) i (- (\<Sum>j\<leftarrow>N. fst (delta_ref cfg g ps i j))),
               pY := addAt (pY moved) i (- (\<Sum>j\<leftarrow>N. snd (delta_ref cfg g ps i j))) \<rparr>)"

text \<open>The element of \<open>neighbors\<close> that the scan pushes for a true neighbour \<open>j\<close>.\<close>

definition neighborOf :: "particleSet \<Rightarrow> nat \<Rightarrow> nat \<Rightarrow> neighbor" where
  "neighborOf ps i j = \<lparr> nid = j, nd = sqrt (dist2 ps i j),
      ndx = pX ps ! j - pX ps ! i, ndy = pY ps ! j - pY ps ! i \<rparr>"

text \<open>The displacement of neighbour \<open>j\<close> for given pressures.\<close>

definition push :: "config \<Rightarrow> real \<Rightarrow> real \<Rightarrow> particleSet \<Rightarrow> nat \<Rightarrow> nat \<Rightarrow> real \<times> real" where
  "push cfg P PNear ps i j =
     ((1 / 2) * (P * q_ref cfg ps i j + PNear * (q_ref cfg ps i j)\<^sup>2)
         * ((pX ps ! j - pX ps ! i) / sqrt (dist2 ps i j)),
      (1 / 2) * (P * q_ref cfg ps i j + PNear * (q_ref cfg ps i j)\<^sup>2)
         * ((pY ps ! j - pY ps ! i) / sqrt (dist2 ps i j)))"

section \<open>Prediction with the non-finite numbers of JavaScript\<close>

text \<open>
  A JavaScript number is a finite value, an infinity or NaN.  The operations below follow
  IEEE 754 on the special values and are exact on the finite ones: rounding, overflow and
  the sign of zero are not modelled (a nonzero finite number divided by zero gives the
  infinity of the sign of the dividend).  A comparison with NaN is false.
\<close>

datatype jsnum = Fin real | PosInf | NegInf | NaN

fun js_neg :: "jsnum \<Rightarrow> jsnum" where
  "js_neg (Fin a) = Fin (- a)"
| "js_neg PosInf = NegInf"
| "js_neg NegInf = PosInf"
| "js_neg NaN = NaN"

fun js_add :: "jsnum \<Rightarrow> jsnum \<Rightarrow> jsnum" where
  "js_add NaN b = NaN"
| "js_add a NaN = NaN"
| "js_add (Fin a) (Fin b) = Fin (a + b)"
| "js_add PosInf NegInf = NaN"
| "js_add NegInf PosInf = NaN"
| "js_add PosInf b = PosInf"
| "js_add a PosInf = PosInf"
| "js_add NegInf b = NegInf"
| "js_add a NegInf = NegInf"

definition js_sub :: "jsnum \<Rightarrow> jsnum \<Rightarrow> jsnum" where
  "js_sub a b = js_add a (js_neg b)"

fun js_mul :: "jsnum \<Rightarrow> jsnum \<Rightarrow> jsnum" where
  "js_mul NaN b = NaN"
| "js_mul a NaN = NaN"
| "js_mul (Fin a) (Fin b) = Fin (a * b)"
| "js_mul (Fin a) PosInf = (if a = 0 then NaN else if 0 < a then PosInf else NegInf)"
| "js_mul (Fin a) NegInf = (if a = 0 then NaN else if 0 < a then NegInf else PosInf)"
| "js_mul PosInf (Fin b) = (if b = 0 then NaN else if 0 < b then PosInf else NegInf)"
| "js_mul NegInf (Fin b) = (if b = 0 then NaN else if 0 < b then NegInf else PosInf)"
| "js_mul PosInf PosInf = PosInf"
| "js_mul PosInf NegInf = NegInf"
| "js_mul NegInf PosInf = NegInf"
| "js_mul NegInf NegInf = PosInf"

fun js_div :: "jsnum \<Rightarrow> jsnum \<Rightarrow> jsnum" where
  "js_div NaN b = NaN"
| "js_div a NaN = NaN"
| "js_div (Fin a) (Fin b) =
     (if b \<noteq> 0 then Fin (a / b) else if a = 0 then NaN else if 0 < a then PosInf else NegInf)"
| "js_div (Fin a) b = Fin 0"
| "js_div PosInf (Fin b) = (if 0 \<le> b then PosInf else NegInf)"
| "js_div NegInf (Fin b) = (if 0 \<le> b then NegInf else PosInf)"
| "js_div a b = NaN"

fun js_sqrt :: "jsnum \<Rightarrow> jsnum" where
  "js_sqrt (Fin a) = (if a < 0 then NaN else Fin (sqrt a))"
| "js_sqrt PosInf = PosInf"
| "js_sqrt NegInf = NaN"
| "js_sqrt NaN = NaN"

fun js_lt :: "jsnum \<Rightarrow> jsnum \<Rightarrow> bool" where
  "js_lt NaN b = False"
| "js_lt a NaN = False"
| "js_lt (Fin a) (Fin b) = (a < b)"
| "js_lt PosInf b = False"
| "js_lt a PosInf = True"
| "js_lt a NegInf = False"
| "js_lt NegInf b = True"

text \<open>The six values of one particle, as JavaScript numbers.\<close>

record jsParticle =
  jx :: jsnum
  jy :: jsnum
  jvx :: jsnum
  jvy :: jsnum
  jprevX :: jsnum
  jprevY :: jsnum

text \<open>
  The body of the first loop of \<open>updatePhysics\<close> once more, for one particle and with
  these numbers; \<open>dpr\<close> and \<open>gain\<close> as in \<open>predictParticle\<close>.
\<close>

definition predictParticle_js :: "config \<Rightarrow> env \<Rightarrow> jsnum \<Rightarrow> real \<Rightarrow> jsParticle \<Rightarrow> jsParticle" where
  "predictParticle_js cfg e dpr gain p =
    (let vx1 = js_add (jvx p) (js_mul (Fin (gravityX e)) (Fin (gravityScale cfg)));
         vy1 = js_add (jvy p) (js_mul (Fin (gravityY e)) (Fin (gravityScale cfg)));
         (vx2, vy2) =
           (if pointerDown e then
              (let dx = js_sub (jx p) (js_mul (Fin (pointerX e)) dpr);
                   dy = js_sub (jy p) (js_mul (Fin (pointerY e)) dpr);
                   d2 = js_add (js_mul dx dx) (js_mul dy dy);
                   iR = js_mul (Fin (interactionRadius cfg)) dpr
               in if js_lt d2 (js_mul iR iR) then
                    (let d = js_sqrt d2;
                         f = js_mul (js_sub (Fin 1) (js_div d iR)) (Fin gain)
                     in (js_add vx1 (js_mul (js_div dx d) f), js_add vy1 (js_mul (js_div dy d) f)))
                  else (vx1, vy1))
            else (vx1, vy1))
     in \<lparr> jx = js_add (jx p) vx2, jy = js_add (jy p) vy2, jvx = vx2, jvy = vy2,
          jprevX = jx p, jprevY = jy p \<rparr>)"

text \<open>A finite particle as a \<open>jsParticle\<close>.\<close>

fun finiteParticle :: "particle \<Rightarrow> jsParticle" where
  "finiteParticle (a, b, c, d, p, q) =
     \<lparr> jx = Fin a, jy = Fin b, jvx = Fin c, jvy = Fin d, jprevX = Fin p, jprevY = Fin q \<rparr>"

text \<open>
  A particle at rest at (300, 200) and the pointer held down exactly on it: at (300, 200)
  for the generations that use the pointer position as it is, and at (150, 100) in a
  window 1000 wide with a canvas 2000 wide for V5, which scales the pointer by
  \<open>dpr = 2\<close>.  Then two particles at one and the same position.
\<close>

definition touching :: env where
  "touching = \<lparr> width = 1000, height = 800, innerWidth = 1000, gravityX = 0, gravityY = 1,
      pointerX = 300, pointerY = 200, pointerDown = True \<rparr>"

definition touchingV5 :: env where
  "touchingV5 = \<lparr> width = 2000, height = 1600, innerWidth = 1000, gravityX = 0, gravityY = 1,
      pointerX = 150, pointerY = 100, pointerDown = True \<rparr>"

definition underPointer :: jsParticle where
  "underPointer = \<lparr> jx = Fin 300, jy = Fin 200, jvx = Fin 0, jvy = Fin 0,
      jprevX = Fin 300, jprevY = Fin 200 \<rparr>"

definition coincident :: particleSet where
  "coincident = \<lparr> pX = [100, 100], pY = [100, 100], vX = [0, 0], vY = [0, 0],
                  prevX = [100, 100], prevY = [100, 100] \<rparr>"

section \<open>The boundary pass on one coordinate\<close>

text \<open>
  The clamp of the "High Performance" generation and of water.js is written with
  \<open>else if\<close>; on one coordinate, with margin \<open>m\<close> and bound \<open>b\<close>:
\<close>

definition clampElse :: "real \<Rightarrow> real \<Rightarrow> real \<Rightarrow> real" where
  "clampElse m b c = (if c < m then m else if c > b - m then b - m else c)"

fun enforceOne_lite :: "config \<Rightarrow> env \<Rightarrow> particle \<Rightarrow> particle" where
  "enforceOne_lite cfg e (a, b, c, d, p, q) =
     (clampElse (radius cfg) (width e) a, clampElse (radius cfg) (height e) b, c, d, p, q)"

text \<open>
  The same two statements on a coordinate that is a JavaScript number:
  \<open>if (c < m) c = m; if (c > b - m) c = b - m;\<close> and the variant with \<open>else if\<close>.
  Both comparisons are false for NaN.
\<close>

definition enforceCoord_js :: "real \<Rightarrow> real \<Rightarrow> jsnum \<Rightarrow> jsnum" where
  "enforceCoord_js m b c =
    (let c1 = (if js_lt c (Fin m) then Fin m else c)
     in if js_lt (js_sub (Fin b) (Fin m)) c1 then js_sub (Fin b) (Fin m) else c1)"

definition enforceCoord_lite_js :: "real \<Rightarrow> real \<Rightarrow> jsnum \<Rightarrow> jsnum" where
  "enforceCoord_lite_js m b c =
    (if js_lt c (Fin m) then Fin m
     else if js_lt (js_sub (Fin b) (Fin m)) c then js_sub (Fin b) (Fin m)
     else c)"

text \<open>A canvas 20 wide, and a particle of water.js with radius 12 at x = 5.\<close>

definition tiny :: env where
  "tiny = \<lparr> width = 20, height = 100, innerWidth = 20, gravityX = 0, gravityY = 1,
      pointerX = - 1000, pointerY = - 1000, pointerDown = False \<rparr>"

definition cfg1_lite :: config where
  "cfg1_lite = CONFIG_LITE\<lparr> particleCount := 1 \<rparr>"

definition droplet :: waterParticle where
  "droplet = \<lparr> wx = 5, wy = 50, wvx = 1, wvy = 1, wradius = 12 \<rparr>"

text \<open>The particle set when the loop of \<open>relax\<close> reaches particle \<open>m\<close>.\<close>

definition relaxUpTo :: "config \<Rightarrow> (int \<times> int \<rightharpoonup> nat list) \<Rightarrow> nat \<Rightarrow> particleSet \<Rightarrow> particleSet" where
  "relaxUpTo cfg g m ps = fold (\<lambda>i ps. relaxParticle cfg g ps i) [0..<m] ps"

section \<open>Lengths of the arrays\<close>

lemma length_addAt [simp]: "length (addAt a i v) = length a"
  by (simp add: addAt_def)

lemma displace_fold_len:
  "length (pX (fst (fold (displace cfg P PNear) ns acc))) = length (pX (fst acc)) \<and>
   length (pY (fst (fold (displace cfg P PNear) ns acc))) = length (pY (fst acc))"
proof (induction ns arbitrary: acc)
  case Nil show ?case by simp
next
  case (Cons n ns)
  obtain ps dx dy where acc: "acc = (ps, dx, dy)" by (cases acc) auto
  show ?case by (simp add: acc Cons Let_def)
qed

lemma relaxParticle_len:
  "length (pX (relaxParticle cfg g ps i)) = length (pX ps) \<and>
   length (pY (relaxParticle cfg g ps i)) = length (pY ps)"
  using displace_fold_len[of cfg _ _ "findNeighbors cfg g ps i" "(ps, 0, 0)"]
  by (simp add: relaxParticle_def Let_def split: prod.splits) (metis fst_conv)

lemma relax_fold_len:
  "length (pX (fold (\<lambda>i ps. relaxParticle cfg g ps i) is ps)) = length (pX ps) \<and>
   length (pY (fold (\<lambda>i ps. relaxParticle cfg g ps i) is ps)) = length (pY ps)"
  by (induction "is" arbitrary: ps) (simp_all add: relaxParticle_len)

lemma relax_len:
  "length (pX (relax cfg g ps)) = length (pX ps) \<and> length (pY (relax cfg g ps)) = length (pY ps)"
  by (simp add: relax_def relax_fold_len)

section \<open>Boundary enforcement\<close>

lemma clamp_list:
  "(let a1 = (if a ! i < m then a[i := m] else a)
    in if a1 ! i > b - m then a1[i := b - m] else a1) = a[i := clampTo m b (a ! i)]"
  by (cases "i < length a") (auto simp: Let_def clampTo_def min_def max_def list_update_beyond)

lemma enforceParticle_eq:
  "enforceParticle cfg e ps i =
     ps\<lparr> pX := (pX ps)[i := clampTo (radius cfg) (width e) (pX ps ! i)],
         pY := (pY ps)[i := clampTo (radius cfg) (height e) (pY ps ! i)] \<rparr>"
  using clamp_list[of "pX ps" i "radius cfg" "width e"] clamp_list[of "pY ps" i "radius cfg" "height e"]
  by (simp add: enforceParticle_def Let_def)

lemma fold_update_map:
  "fold (\<lambda>i a. a[i := f (a ! i)]) [0..<n] a = map f (take n a) @ drop n a"
proof (induction n)
  case 0 show ?case by simp
next
  case (Suc n)
  show ?case
  proof (cases "n < length a")
    case True
    then show ?thesis
      by (simp add: Suc take_Suc_conv_app_nth list_update_append nth_append Cons_nth_drop_Suc[symmetric])
  next
    case False
    then show ?thesis by (simp add: Suc list_update_beyond)
  qed
qed

lemma enforce_fold:
  "fold (\<lambda>i ps. enforceParticle cfg e ps i) [0..<n] ps =
     ps\<lparr> pX := fold (\<lambda>i a. a[i := clampTo (radius cfg) (width e) (a ! i)]) [0..<n] (pX ps),
         pY := fold (\<lambda>i a. a[i := clampTo (radius cfg) (height e) (a ! i)]) [0..<n] (pY ps) \<rparr>"
  by (induction n) (simp_all add: enforceParticle_eq)

lemma enforceBounds_pX:
  "length (pX ps) = particleCount cfg \<Longrightarrow>
   pX (enforceBounds cfg e ps) = map (clampTo (radius cfg) (width e)) (pX ps)"
  by (simp add: enforceBounds_def enforce_fold fold_update_map)

lemma enforceBounds_pY:
  "length (pY ps) = particleCount cfg \<Longrightarrow>
   pY (enforceBounds cfg e ps) = map (clampTo (radius cfg) (height e)) (pY ps)"
  by (simp add: enforceBounds_def enforce_fold fold_update_map)

lemma substep_particles:
  "particles (substep cfg e st) =
     enforceBounds cfg e (relax cfg (buildGrid cfg (particles st)) (particles st))"
  by (simp add: substep_def rebuildGrid_def Let_def)

lemma lone_allocated: "allocated cfg1 (particles (lone a b))"
  by (simp add: allocated_def cfg1_def CONFIG_V5_def lone_def)

lemma substep_narrow: "pX (particles (substep cfg1 narrow (lone 16 50))) = [12]"
  by (simp add: substep_def rebuildGrid_def buildGrid_def gridInsert_def gridKey_def GRID_SIZE_def
      relax_def relaxParticle_def findNeighbors_def candidates_def block3_def scan_def
      enforceBounds_def enforceParticle_def cfg1_def CONFIG_V5_def narrow_def lone_def Let_def addAt_def
      pressure_def nearPressure_def)

section \<open>Loops that treat each particle on its own\<close>

lemma firstN_len [simp]: "length (firstN N n f a) = N" by (simp add: firstN_def)
lemma firstN_nth [simp]: "i < N \<Longrightarrow> firstN N n f a ! i = (if i < n then f i else a ! i)"
  by (simp add: firstN_def)
lemma firstN_0: "length a = N \<Longrightarrow> firstN N 0 f a = a"
  by (simp add: firstN_def list_eq_iff_nth_eq)
lemma firstN_Suc: "n < N \<Longrightarrow> (firstN N n f a)[n := f n] = firstN N (Suc n) f a"
  by (auto simp: firstN_def list_eq_iff_nth_eq nth_list_update less_Suc_eq)

lemma mapFirst_allocated: "allocated cfg (mapFirst (particleCount cfg) n F ps)"
  by (simp add: allocated_def mapFirst_def)

lemma particle_mapFirst: "n < N \<Longrightarrow> particle (mapFirst N n F ps) n = particle ps n"
  by (simp add: particle_def mapFirst_def)

lemma setParticle_mapFirst:
  "n < N \<Longrightarrow> setParticle (mapFirst N n F ps) n (F (particle ps n)) = mapFirst N (Suc n) F ps"
  by (cases "F (particle ps n)") (simp add: mapFirst_def firstN_Suc[symmetric])

lemma pointwise_fold:
  assumes step: "\<And>ps i. allocated cfg ps \<Longrightarrow> i < particleCount cfg \<Longrightarrow>
                    step ps i = setParticle ps i (F (particle ps i))"
    and al: "allocated cfg ps" and n: "n \<le> particleCount cfg"
  shows "fold (\<lambda>i ps. step ps i) [0..<n] ps = mapFirst (particleCount cfg) n F ps"
  using n
proof (induction n)
  case 0
  with al show ?case by (simp add: mapFirst_def firstN_0 allocated_def)
next
  case (Suc n)
  then have n: "n < particleCount cfg" by simp
  have "fold (\<lambda>i ps. step ps i) [0..<Suc n] ps = step (mapFirst (particleCount cfg) n F ps) n"
    using Suc by simp
  also have "\<dots> = setParticle (mapFirst (particleCount cfg) n F ps) n (F (particle ps n))"
    using step[OF mapFirst_allocated n] by (simp add: particle_mapFirst[OF n])
  finally show ?case by (simp add: setParticle_mapFirst[OF n])
qed

lemma predictParticle_eq:
  assumes "allocated cfg ps" and "i < particleCount cfg"
  shows "predictParticle cfg e dpr gain ps i = setParticle ps i (predictOne cfg e dpr gain (particle ps i))"
  using assms
  by (simp add: predictParticle_def impulse_def Let_def addAt_def allocated_def particle_def)

lemma enforceParticle_one:
  "enforceParticle cfg e ps i = setParticle ps i (enforceOne cfg e (particle ps i))"
  by (simp add: enforceParticle_eq particle_def)

lemma reconcileParticle_eq:
  "reconcileParticle cfg ps i = setParticle ps i (reconcileOne cfg (particle ps i))"
  by (simp add: reconcileParticle_def particle_def)

lemma predictParticle_lite_eq:
  assumes "allocated cfg ps" and "i < particleCount cfg"
  shows "predictParticle_lite cfg e ps i =
           setParticle ps i (enforceOne cfg e (predictOne cfg e 1 2 (particle ps i)))"
  using assms
  by (simp add: predictParticle_lite_def predictParticle_eq enforceParticle_one particle_def Let_def
      allocated_def)

lemma predict_eq:
  "allocated cfg ps \<Longrightarrow>
   predict cfg e dpr gain ps = mapFirst (particleCount cfg) (particleCount cfg) (predictOne cfg e dpr gain) ps"
  unfolding predict_def by (rule pointwise_fold) (simp_all add: predictParticle_eq)

lemma predict_lite_eq:
  "allocated cfg ps \<Longrightarrow>
   predict_lite cfg e ps = mapFirst (particleCount cfg) (particleCount cfg)
      (\<lambda>c. enforceOne cfg e (predictOne cfg e 1 2 c)) ps"
  unfolding predict_lite_def by (rule pointwise_fold) (simp_all add: predictParticle_lite_eq)

lemma enforceBounds_eq:
  "allocated cfg ps \<Longrightarrow>
   enforceBounds cfg e ps = mapFirst (particleCount cfg) (particleCount cfg) (enforceOne cfg e) ps"
  unfolding enforceBounds_def by (rule pointwise_fold) (simp_all add: enforceParticle_one)

lemma reconcile_eq:
  "allocated cfg ps \<Longrightarrow>
   reconcile cfg ps = mapFirst (particleCount cfg) (particleCount cfg) (reconcileOne cfg) ps"
  unfolding reconcile_def by (rule pointwise_fold) (simp_all add: reconcileParticle_eq)

section \<open>What relaxation and boundaries leave alone\<close>

lemma positionsOnly_refl [simp]: "positionsOnly ps ps"
  by (simp add: positionsOnly_def)

lemma positionsOnly_trans: "positionsOnly a b \<Longrightarrow> positionsOnly b c \<Longrightarrow> positionsOnly a c"
  by (simp add: positionsOnly_def)

lemma positionsOnly_allocated: "positionsOnly a b \<Longrightarrow> allocated cfg a \<Longrightarrow> allocated cfg b"
  by (simp add: positionsOnly_def allocated_def)

lemma displace_fold_positionsOnly:
  "positionsOnly (fst acc) (fst (fold (displace cfg P PNear) ns acc))"
proof (induction ns arbitrary: acc)
  case Nil show ?case by simp
next
  case (Cons n ns)
  obtain ps dx dy where acc: "acc = (ps, dx, dy)" by (cases acc) auto
  have "positionsOnly (fst acc) (fst (displace cfg P PNear n acc))"
    by (simp add: acc Let_def positionsOnly_def)
  then show ?case using Cons[of "displace cfg P PNear n acc"]
    by (auto intro: positionsOnly_trans)
qed

lemma relaxParticle_positionsOnly: "positionsOnly ps (relaxParticle cfg g ps i)"
proof -
  obtain rho rhoNear where r: "fold (accumulateDensity cfg) (findNeighbors cfg g ps i) (0, 0) = (rho, rhoNear)"
    by (cases "fold (accumulateDensity cfg) (findNeighbors cfg g ps i) (0, 0)") auto
  obtain ps' dx dy where d: "fold (displace cfg (pressure cfg rho) (nearPressure cfg rhoNear))
      (findNeighbors cfg g ps i) (ps, 0, 0) = (ps', dx, dy)"
    by (cases "fold (displace cfg (pressure cfg rho) (nearPressure cfg rhoNear))
      (findNeighbors cfg g ps i) (ps, 0, 0)") auto
  have "positionsOnly ps ps'"
    using displace_fold_positionsOnly[of "(ps, 0, 0)" cfg "pressure cfg rho" "nearPressure cfg rhoNear"
        "findNeighbors cfg g ps i"] by (simp add: d)
  then show ?thesis
    by (simp add: relaxParticle_def Let_def r d positionsOnly_def)
qed

lemma relax_fold_positionsOnly:
  "positionsOnly ps (fold (\<lambda>i ps. relaxParticle cfg g ps i) is ps)"
proof (induction "is" arbitrary: ps)
  case Nil show ?case by simp
next
  case (Cons i "is")
  show ?case
    using positionsOnly_trans[OF relaxParticle_positionsOnly[of ps cfg g i] Cons[of "relaxParticle cfg g ps i"]]
    by simp
qed

lemma relax_positionsOnly: "positionsOnly ps (relax cfg g ps)"
  by (simp add: relax_def relax_fold_positionsOnly)

lemma enforce_fold_positionsOnly:
  "positionsOnly ps (fold (\<lambda>i ps. enforceParticle cfg e ps i) is ps)"
proof (induction "is" arbitrary: ps)
  case Nil show ?case by simp
next
  case (Cons i "is")
  have "positionsOnly ps (enforceParticle cfg e ps i)"
    by (simp add: enforceParticle_eq positionsOnly_def)
  then show ?case using Cons[of "enforceParticle cfg e ps i"]
    by (auto intro: positionsOnly_trans)
qed

lemma enforceBounds_positionsOnly: "positionsOnly ps (enforceBounds cfg e ps)"
  by (simp add: enforceBounds_def enforce_fold_positionsOnly)

lemma substep_positionsOnly: "positionsOnly (particles st) (particles (substep cfg e st))"
  unfolding substep_particles
  by (rule positionsOnly_trans[OF relax_positionsOnly enforceBounds_positionsOnly])

lemma substeps_positionsOnly: "positionsOnly (particles st) (particles (substeps cfg e k st))"
proof (induction k arbitrary: st)
  case 0 show ?case by simp
next
  case (Suc k)
  show ?case
    using positionsOnly_trans[OF substep_positionsOnly[of st cfg e] Suc[of "substep cfg e st"]]
    by simp
qed


section \<open>Velocity reconstruction\<close>

lemma enforce_lite_fold_positionsOnly:
  "positionsOnly ps (fold (\<lambda>i ps. enforceParticle_lite cfg e ps i) is ps)"
proof (induction "is" arbitrary: ps)
  case Nil show ?case by simp
next
  case (Cons i "is")
  have "positionsOnly ps (enforceParticle_lite cfg e ps i)"
    by (simp add: enforceParticle_lite_def positionsOnly_def Let_def)
  then show ?case using Cons[of "enforceParticle_lite cfg e ps i"]
    by (auto intro: positionsOnly_trans)
qed

lemma substep_lite_positionsOnly: "positionsOnly (particles st) (particles (substep_lite cfg e st))"
  using positionsOnly_trans[OF relax_positionsOnly[of "particles st" cfg "grid st"]
      enforce_lite_fold_positionsOnly[of "relax cfg (grid st) (particles st)" cfg e "[0..<particleCount cfg]"]]
  by (simp add: substep_lite_def enforceBounds_lite_def)

lemma substeps_lite_positionsOnly: "positionsOnly (particles st) (particles (substeps_lite cfg e k st))"
proof (induction k arbitrary: st)
  case 0 show ?case by simp
next
  case (Suc k)
  show ?case
    using positionsOnly_trans[OF substep_lite_positionsOnly[of st cfg e] Suc[of "substep_lite cfg e st"]]
    by simp
qed

lemma reconcile_nth:
  assumes "allocated cfg ps" and "i < particleCount cfg"
  shows "vX (reconcile cfg ps) ! i = (pX ps ! i - prevX ps ! i) * damping cfg"
    and "vY (reconcile cfg ps) ! i = (pY ps ! i - prevY ps ! i) * damping cfg"
    and "pX (reconcile cfg ps) ! i = pX ps ! i" and "pY (reconcile cfg ps) ! i = pY ps ! i"
    and "prevX (reconcile cfg ps) ! i = prevX ps ! i" and "prevY (reconcile cfg ps) ! i = prevY ps ! i"
  using assms(2) by (simp_all add: reconcile_eq[OF assms(1)] mapFirst_def particle_def)

lemma predict_prev:
  assumes "allocated cfg ps" and "i < particleCount cfg"
  shows "prevX (predict cfg e dpr gain ps) ! i = pX ps ! i"
    and "prevY (predict cfg e dpr gain ps) ! i = pY ps ! i"
  using assms(2) by (simp_all add: predict_eq[OF assms(1)] mapFirst_def particle_def Let_def)

lemma predict_lite_prev:
  assumes "allocated cfg ps" and "i < particleCount cfg"
  shows "prevX (predict_lite cfg e ps) ! i = pX ps ! i"
    and "prevY (predict_lite cfg e ps) ! i = pY ps ! i"
  using assms(2) by (simp_all add: predict_lite_eq[OF assms(1)] mapFirst_def particle_def Let_def)

lemma predict_allocated: "allocated cfg ps \<Longrightarrow> allocated cfg (predict cfg e dpr gain ps)"
  by (simp add: predict_eq mapFirst_allocated)

lemma predict_lite_allocated: "allocated cfg ps \<Longrightarrow> allocated cfg (predict_lite cfg e ps)"
  by (simp add: predict_lite_eq mapFirst_allocated)

lemma updatePhysics_particles:
  "particles (updatePhysics cfg dpr gain e st) =
     reconcile cfg (particles (substeps cfg e (subSteps cfg)
        (st\<lparr> particles := predict cfg e dpr gain (particles st) \<rparr>)))"
  by (simp add: updatePhysics_def Let_def)

lemma updatePhysics_lite_particles:
  "particles (updatePhysics_lite cfg e st) =
     reconcile cfg (particles (substeps_lite cfg e (subSteps cfg)
        (rebuildGrid cfg (st\<lparr> particles := predict_lite cfg e (particles st) \<rparr>))))"
  by (simp add: updatePhysics_lite_def Let_def)

text \<open>
  C5: at the end of a frame the stored velocity of every particle is
  \<open>(position - previousPosition) * damping\<close>, where the previous position is the
  position the particle had when the frame began (saved during prediction).  The value is
  assigned, not added to the predicted velocity.  This holds for the frame shared by the
  V5, "Debug Mode" and "AR Water Simulation" generations (any \<open>dpr\<close> and gain) and for
  the "High Performance" generation.
\<close>

theorem velocity_reconstructed:
  assumes "allocated cfg (particles st)" and "i < particleCount cfg"
  shows "vX (particles (updatePhysics cfg dpr gain e st)) ! i =
           (pX (particles (updatePhysics cfg dpr gain e st)) ! i
             - prevX (particles (updatePhysics cfg dpr gain e st)) ! i) * damping cfg \<and>
         vY (particles (updatePhysics cfg dpr gain e st)) ! i =
           (pY (particles (updatePhysics cfg dpr gain e st)) ! i
             - prevY (particles (updatePhysics cfg dpr gain e st)) ! i) * damping cfg \<and>
         prevX (particles (updatePhysics cfg dpr gain e st)) ! i = pX (particles st) ! i \<and>
         prevY (particles (updatePhysics cfg dpr gain e st)) ! i = pY (particles st) ! i \<and>
         vX (particles (updatePhysics_lite cfg e st)) ! i =
           (pX (particles (updatePhysics_lite cfg e st)) ! i
             - prevX (particles (updatePhysics_lite cfg e st)) ! i) * damping cfg \<and>
         vY (particles (updatePhysics_lite cfg e st)) ! i =
           (pY (particles (updatePhysics_lite cfg e st)) ! i
             - prevY (particles (updatePhysics_lite cfg e st)) ! i) * damping cfg \<and>
         prevX (particles (updatePhysics_lite cfg e st)) ! i = pX (particles st) ! i \<and>
         prevY (particles (updatePhysics_lite cfg e st)) ! i = pY (particles st) ! i"
proof -
  let ?ps1 = "predict cfg e dpr gain (particles st)"
  let ?st2 = "substeps cfg e (subSteps cfg) (st\<lparr> particles := ?ps1 \<rparr>)"
  have po: "positionsOnly ?ps1 (particles ?st2)"
    using substeps_positionsOnly[of "st\<lparr> particles := ?ps1 \<rparr>" cfg e "subSteps cfg"] by simp
  have al2: "allocated cfg (particles ?st2)"
    using po predict_allocated[OF assms(1)] by (rule positionsOnly_allocated)
  have prev2: "prevX (particles ?st2) = prevX ?ps1" "prevY (particles ?st2) = prevY ?ps1"
    using po by (simp_all add: positionsOnly_def)
  let ?qs1 = "predict_lite cfg e (particles st)"
  let ?su2 = "substeps_lite cfg e (subSteps cfg) (rebuildGrid cfg (st\<lparr> particles := ?qs1 \<rparr>))"
  have qo: "positionsOnly ?qs1 (particles ?su2)"
    using substeps_lite_positionsOnly[of "rebuildGrid cfg (st\<lparr> particles := ?qs1 \<rparr>)" cfg e "subSteps cfg"]
    by (simp add: rebuildGrid_def)
  have bl2: "allocated cfg (particles ?su2)"
    using qo predict_lite_allocated[OF assms(1)] by (rule positionsOnly_allocated)
  have qrev2: "prevX (particles ?su2) = prevX ?qs1" "prevY (particles ?su2) = prevY ?qs1"
    using qo by (simp_all add: positionsOnly_def)
  show ?thesis
    unfolding updatePhysics_particles updatePhysics_lite_particles
    by (simp add: reconcile_nth[OF al2 assms(2)] reconcile_nth[OF bl2 assms(2)] prev2 qrev2
        predict_prev[OF assms] predict_lite_prev[OF assms])
qed

theorem velocity_reconstructed_witness:
  "allocated cfg1 (particles (lone 16 50)) \<and> (0::nat) < particleCount cfg1 \<and>
   vX (particles (updatePhysics cfg1 1 4 wide (lone 16 50))) ! 0 =
     (pX (particles (updatePhysics cfg1 1 4 wide (lone 16 50))) ! 0
        - prevX (particles (updatePhysics cfg1 1 4 wide (lone 16 50))) ! 0) * damping cfg1 \<and>
   prevX (particles (updatePhysics cfg1 1 4 wide (lone 16 50))) ! 0 = 16 \<and>
   prevY (particles (updatePhysics_lite cfg1 wide (lone 16 50))) ! 0 = 50"
proof -
  have h: "(0::nat) < particleCount cfg1" by (simp add: cfg1_def CONFIG_V5_def)
  have v: "pX (particles (lone 16 50)) ! 0 = 16" "pY (particles (lone 16 50)) ! 0 = 50"
    by (simp_all add: lone_def)
  show ?thesis
    using velocity_reconstructed[of cfg1 "lone 16 50" 0 1 4 wide] lone_allocated[of 16 50] h v
    by simp
qed


section \<open>The loop over the substeps\<close>

lemma substep_grid: "grid (substep cfg e st) = buildGrid cfg (particles st)"
  by (simp add: substep_def rebuildGrid_def Let_def)

lemma substep_builds: "gridBuilds (substep cfg e st) = Suc (gridBuilds st)"
  by (simp add: substep_def rebuildGrid_def Let_def)

lemma substep_substepP: "particles (substep cfg e st) = substepP cfg e (particles st)"
  by (simp add: substep_particles substepP_def)

lemma substeps_particles: "particles (substeps cfg e k st) = (substepP cfg e ^^ k) (particles st)"
  by (induction k arbitrary: st) (simp_all add: substep_substepP funpow_swap1)

lemma substeps_builds: "gridBuilds (substeps cfg e k st) = gridBuilds st + k"
  by (induction k arbitrary: st) (simp_all add: substep_builds)

lemma substeps_grid:
  "grid (substeps cfg e (Suc k) st) = buildGrid cfg ((substepP cfg e ^^ k) (particles st))"
proof (induction k arbitrary: st)
  case 0 show ?case by (simp add: substep_grid)
next
  case (Suc k)
  have "grid (substeps cfg e (Suc (Suc k)) st) = grid (substeps cfg e (Suc k) (substep cfg e st))"
    by simp
  also have "\<dots> = buildGrid cfg ((substepP cfg e ^^ k) (particles (substep cfg e st)))"
    by (rule Suc)
  finally show ?case by (simp add: substep_substepP funpow_swap1)
qed

section \<open>No particles\<close>

lemma empty_loops:
  assumes "particleCount cfg = 0"
  shows "predict cfg e dpr gain ps = ps" "predict_lite cfg e ps = ps" "relax cfg g ps = ps"
    "enforceBounds cfg e ps = ps" "enforceBounds_lite cfg e ps = ps" "reconcile cfg ps = ps"
    "buildGrid cfg ps = Map.empty"
  using assms
  by (simp_all add: predict_def predict_lite_def relax_def enforceBounds_def enforceBounds_lite_def
      reconcile_def buildGrid_def)

lemma substeps_empty:
  assumes "particleCount cfg = 0"
  shows "particles (substeps cfg e k st) = particles st \<and>
         grid (substeps cfg e k st) = (if k = 0 then grid st else Map.empty)"
proof (induction k arbitrary: st)
  case 0 show ?case by simp
next
  case (Suc k)
  have "particles (substep cfg e st) = particles st" "grid (substep cfg e st) = Map.empty"
    by (simp_all add: substep_particles substep_grid empty_loops[OF assms])
  then show ?case using Suc[of "substep cfg e st"] by simp
qed

lemma substeps_lite_empty:
  assumes "particleCount cfg = 0"
  shows "particles (substeps_lite cfg e k st) = particles st \<and>
         grid (substeps_lite cfg e k st) = grid st"
proof (induction k arbitrary: st)
  case 0 show ?case by simp
next
  case (Suc k)
  have "particles (substep_lite cfg e st) = particles st" "grid (substep_lite cfg e st) = grid st"
    by (simp_all add: substep_lite_def empty_loops[OF assms])
  then show ?case using Suc[of "substep_lite cfg e st"] by simp
qed

text \<open>
  C10: with zero particles (and the grid empty, as it then always is) one call of
  \<open>updatePhysics\<close> leaves the particle arrays and the contents of the grid as they
  were.  The model is a total function with no error value, as the source has no
  statement that can throw on these inputs.  Both frames are covered.
\<close>

theorem no_particles_no_change:
  assumes "particleCount cfg = 0" and "grid st = Map.empty"
  shows "particles (updatePhysics cfg dpr gain e st) = particles st \<and>
         grid (updatePhysics cfg dpr gain e st) = grid st \<and>
         particles (updatePhysics_lite cfg e st) = particles st \<and>
         grid (updatePhysics_lite cfg e st) = grid st"
  using assms(2)
    substeps_empty[OF assms(1), of e "subSteps cfg" "st\<lparr> particles := particles st \<rparr>"]
    substeps_lite_empty[OF assms(1), of e "subSteps cfg" "rebuildGrid cfg (st\<lparr> particles := particles st \<rparr>)"]
  by (simp add: updatePhysics_def updatePhysics_lite_def Let_def empty_loops[OF assms(1)]
      rebuildGrid_def)

theorem no_particles_no_change_witness:
  "particleCount cfg0 = 0 \<and> grid noParticles = Map.empty \<and>
   particles (updatePhysics cfg0 1 4 wide noParticles) = particles noParticles \<and>
   grid (updatePhysics cfg0 1 4 wide noParticles) = grid noParticles \<and>
   particles (updatePhysics_lite cfg0 wide noParticles) = particles noParticles \<and>
   grid (updatePhysics_lite cfg0 wide noParticles) = grid noParticles"
proof -
  have h: "particleCount cfg0 = 0" "grid noParticles = Map.empty"
    by (simp_all add: cfg0_def CONFIG_V5_def noParticles_def)
  show ?thesis using no_particles_no_change[OF h, of 1 4 wide] h by blast
qed


section \<open>The grid and the block of nine cells\<close>

lemma gridInsert_fold:
  "fold (gridInsert cfg ps) is g k =
     (if filter (\<lambda>i. gridKey cfg (pX ps ! i) (pY ps ! i) = k) is = [] then g k
      else Some ((case g k of None \<Rightarrow> [] | Some cell \<Rightarrow> cell)
                   @ filter (\<lambda>i. gridKey cfg (pX ps ! i) (pY ps ! i) = k) is))"
proof (induction "is" arbitrary: g)
  case Nil show ?case by simp
next
  case (Cons i "is")
  show ?case
    by (simp add: Cons) (simp add: gridInsert_def Let_def)
qed

lemma buildGrid_cell:
  "buildGrid cfg ps k =
     (if filter (\<lambda>i. gridKey cfg (pX ps ! i) (pY ps ! i) = k) [0..<particleCount cfg] = [] then None
      else Some (filter (\<lambda>i. gridKey cfg (pX ps ! i) (pY ps ! i) = k) [0..<particleCount cfg]))"
  by (simp add: buildGrid_def gridInsert_fold)

lemma buildGrid_member:
  "j < particleCount cfg \<Longrightarrow>
   \<exists>c. buildGrid cfg ps (gridKey cfg (pX ps ! j) (pY ps ! j)) = Some c \<and> j \<in> set c"
  by (auto simp: buildGrid_cell filter_empty_conv)

lemma candidates_buildGrid_bound:
  "j \<in> set (candidates (buildGrid cfg ps) gx gy) \<Longrightarrow> j < particleCount cfg"
  by (auto simp: candidates_def buildGrid_cell split: if_splits)

lemma within_one:
  fixes k g :: int
  assumes "\<bar>k - g\<bar> \<le> 1"
  shows "k = g - 1 \<or> k = g \<or> k = g + 1"
  using assms by presburger

lemma block3_member:
  assumes "\<bar>kx - gx\<bar> \<le> 1" and "\<bar>ky - gy\<bar> \<le> 1"
  shows "(kx, ky) \<in> set (block3 gx gy)"
  using within_one[OF assms(1)] within_one[OF assms(2)]
  unfolding block3_def by (simp; blast)

lemma candidates_member:
  assumes "g (kx, ky) = Some c" and "j \<in> set c" and "\<bar>kx - gx\<bar> \<le> 1" and "\<bar>ky - gy\<bar> \<le> 1"
  shows "j \<in> set (candidates g gx gy)"
proof -
  have "(kx, ky) \<in> set (block3 gx gy)"
    using assms(3,4) by (rule block3_member)
  then have "\<exists>k \<in> set (block3 gx gy). j \<in> set (case g k of None \<Rightarrow> [] | Some cell \<Rightarrow> cell)"
    using assms(1,2) by (intro bexI[of _ "(kx, ky)"]) simp_all
  then show ?thesis by (simp add: candidates_def)
qed

lemma floor_close:
  fixes a b :: real
  assumes "\<bar>a - b\<bar> < 1"
  shows "\<bar>\<lfloor>a\<rfloor> - \<lfloor>b\<rfloor>\<bar> \<le> 1"
  using assms by linarith

lemma cell_close:
  fixes a b G :: real
  assumes "0 < G" and "\<bar>a - b\<bar> < G"
  shows "\<bar>\<lfloor>a / G\<rfloor> - \<lfloor>b / G\<rfloor>\<bar> \<le> 1"
proof -
  have "\<bar>a / G - b / G\<bar> = \<bar>a - b\<bar> / G"
    using assms(1) by (simp add: diff_divide_distrib[symmetric] abs_divide del: diff_divide_distrib)
  also have "\<dots> < 1" using assms by simp
  finally show ?thesis by (rule floor_close)
qed

lemma abs_le_dist:
  fixes dx dy :: real
  shows "\<bar>dx\<bar> \<le> sqrt (dx * dx + dy * dy)" "\<bar>dy\<bar> \<le> sqrt (dx * dx + dy * dy)"
  by (rule real_le_rsqrt, simp add: power2_eq_square)+

text \<open>
  C6: the block of nine cells covers the cutoff.  With \<open>GRID_SIZE = 2 * physRadius\<close>
  positive, if two indexed particles \<open>i\<close> and \<open>j\<close> are at Euclidean distance less than
  \<open>GRID_SIZE\<close>, then the cell coordinates of \<open>j\<close> are within one of those of \<open>i\<close> on
  each axis, and \<open>j\<close> is among the candidates scanned around the cell of \<open>i\<close> in the grid
  built from these positions.
\<close>

theorem block_covers_cutoff:
  assumes "0 < physRadius cfg" and "i < particleCount cfg" and "j < particleCount cfg"
    and "sqrt ((pX ps ! j - pX ps ! i) * (pX ps ! j - pX ps ! i)
             + (pY ps ! j - pY ps ! i) * (pY ps ! j - pY ps ! i)) < GRID_SIZE cfg"
  shows "GRID_SIZE cfg = 2 * physRadius cfg \<and>
         \<bar>\<lfloor>pX ps ! j / GRID_SIZE cfg\<rfloor> - \<lfloor>pX ps ! i / GRID_SIZE cfg\<rfloor>\<bar> \<le> 1 \<and>
         \<bar>\<lfloor>pY ps ! j / GRID_SIZE cfg\<rfloor> - \<lfloor>pY ps ! i / GRID_SIZE cfg\<rfloor>\<bar> \<le> 1 \<and>
         j \<in> set (candidates (buildGrid cfg ps)
                     \<lfloor>pX ps ! i / GRID_SIZE cfg\<rfloor> \<lfloor>pY ps ! i / GRID_SIZE cfg\<rfloor>)"
proof -
  let ?G = "GRID_SIZE cfg"
  have G: "0 < ?G" using assms(1) by (simp add: GRID_SIZE_def)
  have dx: "\<bar>pX ps ! j - pX ps ! i\<bar> < ?G" and dy: "\<bar>pY ps ! j - pY ps ! i\<bar> < ?G"
    using abs_le_dist[where dx = "pX ps ! j - pX ps ! i" and dy = "pY ps ! j - pY ps ! i"] assms(4)
    by linarith+
  have cx: "\<bar>\<lfloor>pX ps ! j / ?G\<rfloor> - \<lfloor>pX ps ! i / ?G\<rfloor>\<bar> \<le> 1"
    and cy: "\<bar>\<lfloor>pY ps ! j / ?G\<rfloor> - \<lfloor>pY ps ! i / ?G\<rfloor>\<bar> \<le> 1"
    using cell_close[OF G dx] cell_close[OF G dy] by simp_all
  obtain c where c: "buildGrid cfg ps (\<lfloor>pX ps ! j / ?G\<rfloor>, \<lfloor>pY ps ! j / ?G\<rfloor>) = Some c" "j \<in> set c"
    using buildGrid_member[OF assms(3), of ps] by (auto simp: gridKey_def)
  have "j \<in> set (candidates (buildGrid cfg ps) \<lfloor>pX ps ! i / ?G\<rfloor> \<lfloor>pY ps ! i / ?G\<rfloor>)"
    using c cx cy by (rule candidates_member)
  then show ?thesis using cx cy by (simp add: GRID_SIZE_def)
qed

theorem block_covers_cutoff_witness:
  "0 < physRadius cfg2 \<and> (0::nat) < particleCount cfg2 \<and> (1::nat) < particleCount cfg2 \<and>
   sqrt ((pX twoNear ! 1 - pX twoNear ! 0) * (pX twoNear ! 1 - pX twoNear ! 0)
       + (pY twoNear ! 1 - pY twoNear ! 0) * (pY twoNear ! 1 - pY twoNear ! 0)) < GRID_SIZE cfg2 \<and>
   \<lfloor>pX twoNear ! 0 / GRID_SIZE cfg2\<rfloor> = 2 \<and> \<lfloor>pX twoNear ! 1 / GRID_SIZE cfg2\<rfloor> = 3 \<and>
   1 \<in> set (candidates (buildGrid cfg2 twoNear)
                 \<lfloor>pX twoNear ! 0 / GRID_SIZE cfg2\<rfloor> \<lfloor>pY twoNear ! 0 / GRID_SIZE cfg2\<rfloor>)"
proof -
  have h: "0 < physRadius cfg2" "(0::nat) < particleCount cfg2" "(1::nat) < particleCount cfg2"
    "sqrt ((pX twoNear ! 1 - pX twoNear ! 0) * (pX twoNear ! 1 - pX twoNear ! 0)
       + (pY twoNear ! 1 - pY twoNear ! 0) * (pY twoNear ! 1 - pY twoNear ! 0)) < GRID_SIZE cfg2"
    by (simp_all add: cfg2_def CONFIG_V5_def twoNear_def GRID_SIZE_def)
  have f: "\<lfloor>pX twoNear ! 0 / GRID_SIZE cfg2\<rfloor> = 2" "\<lfloor>pX twoNear ! 1 / GRID_SIZE cfg2\<rfloor> = 3"
    by (simp_all add: cfg2_def CONFIG_V5_def twoNear_def GRID_SIZE_def)
  have m: "1 \<in> set (candidates (buildGrid cfg2 twoNear)
                 \<lfloor>pX twoNear ! 0 / GRID_SIZE cfg2\<rfloor> \<lfloor>pY twoNear ! 0 / GRID_SIZE cfg2\<rfloor>)"
    using block_covers_cutoff[OF h] by (elim conjE)
  show ?thesis by (intro conjI h f m)
qed

section \<open>Isolated particles and determinism\<close>

lemma scan_fold_nil:
  assumes "\<forall>j\<in>set js. j = i \<or>
     GRID_SIZE cfg * GRID_SIZE cfg \<le> (pX ps ! j - pX ps ! i) * (pX ps ! j - pX ps ! i)
                       + (pY ps ! j - pY ps ! i) * (pY ps ! j - pY ps ! i)"
  shows "fold (scan cfg ps i) js [] = []"
  using assms by (induction js) (auto simp: scan_def Let_def)

lemma relaxParticle_no_neighbors:
  "findNeighbors cfg g ps i = [] \<Longrightarrow> relaxParticle cfg g ps i = ps"
  by (simp add: relaxParticle_def addAt_def)

lemma updatePhysics_pure:
  "particles (updatePhysics cfg dpr gain e st) =
     reconcile cfg ((substepP cfg e ^^ subSteps cfg) (predict cfg e dpr gain (particles st)))"
  by (simp add: updatePhysics_particles substeps_particles)

lemma particle_mapFirst_full:
  "i < N \<Longrightarrow> particle (mapFirst N N F ps) i = F (particle ps i)"
  by (simp add: particle_def mapFirst_def)

lemma relax_single:
  assumes "particleCount cfg = 1"
  shows "relax cfg (buildGrid cfg ps) ps = ps"
proof -
  have "\<forall>j\<in>set (candidates (buildGrid cfg ps) \<lfloor>pX ps ! 0 / GRID_SIZE cfg\<rfloor>
            \<lfloor>pY ps ! 0 / GRID_SIZE cfg\<rfloor>). j = 0"
    using candidates_buildGrid_bound[of _ cfg ps] assms by auto
  then have "findNeighbors cfg (buildGrid cfg ps) ps 0 = []"
    unfolding findNeighbors_def Let_def by (intro scan_fold_nil) auto
  then show ?thesis
    by (simp add: relax_def assms relaxParticle_no_neighbors)
qed

lemma substepP_single:
  assumes "particleCount cfg = 1" and "allocated cfg ps"
  shows "allocated cfg ((substepP cfg e ^^ k) ps) \<and>
         particle ((substepP cfg e ^^ k) ps) 0 = (enforceOne cfg e ^^ k) (particle ps 0)"
proof (induction k)
  case 0 show ?case using assms(2) by simp
next
  case (Suc k)
  let ?q = "(substepP cfg e ^^ k) ps"
  let ?N = "particleCount cfg"
  have al: "allocated cfg ?q" using Suc by simp
  have pos: "0 < ?N" using assms(1) by simp
  have s: "substepP cfg e ?q = mapFirst ?N ?N (enforceOne cfg e) ?q"
    by (simp only: substepP_def relax_single[OF assms(1)] enforceBounds_eq[OF al])
  have "(substepP cfg e ^^ Suc k) ps = mapFirst ?N ?N (enforceOne cfg e) ?q"
    using s by simp
  then show ?case
    using Suc by (simp only: mapFirst_allocated particle_mapFirst_full[OF pos] funpow.simps o_apply)
qed

text \<open>
  C9: the frame is a function of the particle arrays, gravity, pointer, bounds and
  configuration alone.  The one piece of state that outlives a frame besides the arrays,
  the global \<open>grid\<close>, has no influence on the result (first conjunct).  A particle with
  no other candidate closer than the cutoff is not displaced by its relaxation, which
  leaves the whole particle set as it is (second conjunct).  A single particle ends the
  frame exactly where prediction (gravity and pointer), the boundary clamps of the
  substeps and the velocity reconstruction (damping) put it (third conjunct).  The frame
  calls no random source; \<open>Math.random\<close> occurs in \<open>initParticles\<close> only.
\<close>

theorem frame_deterministic:
  "particles (updatePhysics cfg dpr gain e (st\<lparr> grid := g', gridBuilds := n' \<rparr>))
     = particles (updatePhysics cfg dpr gain e st) \<and>
   ((\<forall>j\<in>set (candidates g \<lfloor>pX ps ! i / GRID_SIZE cfg\<rfloor> \<lfloor>pY ps ! i / GRID_SIZE cfg\<rfloor>).
       j = i \<or> GRID_SIZE cfg * GRID_SIZE cfg
                 \<le> (pX ps ! j - pX ps ! i) * (pX ps ! j - pX ps ! i)
                   + (pY ps ! j - pY ps ! i) * (pY ps ! j - pY ps ! i))
     \<longrightarrow> relaxParticle cfg g ps i = ps) \<and>
   (particleCount cfg = 1 \<and> allocated cfg (particles st)
     \<longrightarrow> particle (particles (updatePhysics cfg dpr gain e st)) 0
         = reconcileOne cfg ((enforceOne cfg e ^^ subSteps cfg)
             (predictOne cfg e dpr gain (particle (particles st) 0))))"
proof (intro conjI impI)
  show "particles (updatePhysics cfg dpr gain e (st\<lparr> grid := g', gridBuilds := n' \<rparr>))
     = particles (updatePhysics cfg dpr gain e st)"
    by (simp add: updatePhysics_pure)
next
  assume "\<forall>j\<in>set (candidates g \<lfloor>pX ps ! i / GRID_SIZE cfg\<rfloor> \<lfloor>pY ps ! i / GRID_SIZE cfg\<rfloor>).
       j = i \<or> GRID_SIZE cfg * GRID_SIZE cfg
                 \<le> (pX ps ! j - pX ps ! i) * (pX ps ! j - pX ps ! i)
                   + (pY ps ! j - pY ps ! i) * (pY ps ! j - pY ps ! i)"
  then have "findNeighbors cfg g ps i = []"
    unfolding findNeighbors_def Let_def by (rule scan_fold_nil)
  then show "relaxParticle cfg g ps i = ps" by (rule relaxParticle_no_neighbors)
next
  assume a: "particleCount cfg = 1 \<and> allocated cfg (particles st)"
  let ?N = "particleCount cfg"
  let ?p1 = "predict cfg e dpr gain (particles st)"
  have N: "?N = 1" and al: "allocated cfg (particles st)" and pos: "0 < ?N" using a by simp_all
  have p1: "allocated cfg ?p1" using al by (rule predict_allocated)
  have q1: "particle ?p1 0 = predictOne cfg e dpr gain (particle (particles st) 0)"
    by (simp only: predict_eq[OF al] particle_mapFirst_full[OF pos])
  have p2: "allocated cfg ((substepP cfg e ^^ subSteps cfg) ?p1)"
    and q2: "particle ((substepP cfg e ^^ subSteps cfg) ?p1) 0
          = (enforceOne cfg e ^^ subSteps cfg) (particle ?p1 0)"
    using substepP_single[OF N p1, where e = e and k = "subSteps cfg"] by simp_all
  show "particle (particles (updatePhysics cfg dpr gain e st)) 0
         = reconcileOne cfg ((enforceOne cfg e ^^ subSteps cfg)
             (predictOne cfg e dpr gain (particle (particles st) 0)))"
    by (simp only: updatePhysics_pure reconcile_eq[OF p2] particle_mapFirst_full[OF pos] q2 q1)
qed

theorem frame_deterministic_witness:
  "candidates (buildGrid cfg2 twoApart)
      \<lfloor>pX twoApart ! 0 / GRID_SIZE cfg2\<rfloor> \<lfloor>pY twoApart ! 0 / GRID_SIZE cfg2\<rfloor> = [0, 1] \<and>
   GRID_SIZE cfg2 * GRID_SIZE cfg2
      \<le> (pX twoApart ! 1 - pX twoApart ! 0) * (pX twoApart ! 1 - pX twoApart ! 0)
        + (pY twoApart ! 1 - pY twoApart ! 0) * (pY twoApart ! 1 - pY twoApart ! 0) \<and>
   relaxParticle cfg2 (buildGrid cfg2 twoApart) twoApart 0 = twoApart \<and>
   particleCount cfg1 = 1 \<and> allocated cfg1 (particles (lone 16 50)) \<and>
   particle (particles (updatePhysics cfg1 1 4 wide (lone 16 50))) 0
      = (20, 5018 / 100, 384 / 100, 1728 / 10000, 16, 50)"
proof -
  have c: "candidates (buildGrid cfg2 twoApart)
      \<lfloor>pX twoApart ! 0 / GRID_SIZE cfg2\<rfloor> \<lfloor>pY twoApart ! 0 / GRID_SIZE cfg2\<rfloor> = [0, 1]"
    by (simp add: candidates_def block3_def buildGrid_def gridInsert_def gridKey_def GRID_SIZE_def
        cfg2_def CONFIG_V5_def twoApart_def Let_def upt_rec)
  have d: "GRID_SIZE cfg2 * GRID_SIZE cfg2
      \<le> (pX twoApart ! 1 - pX twoApart ! 0) * (pX twoApart ! 1 - pX twoApart ! 0)
        + (pY twoApart ! 1 - pY twoApart ! 0) * (pY twoApart ! 1 - pY twoApart ! 0)"
    by (simp add: GRID_SIZE_def cfg2_def CONFIG_V5_def twoApart_def)
  have n: "particleCount cfg1 = 1" by (simp add: cfg1_def CONFIG_V5_def)
  have v: "reconcileOne cfg1 ((enforceOne cfg1 wide ^^ subSteps cfg1)
             (predictOne cfg1 wide 1 4 (particle (particles (lone 16 50)) 0)))
           = (20, 5018 / 100, 384 / 100, 1728 / 10000, 16, 50)"
    by (simp add: cfg1_def CONFIG_V5_def lone_def wide_def particle_def impulse_def clampTo_def
        Let_def numeral_2_eq_2)
  have r: "relaxParticle cfg2 (buildGrid cfg2 twoApart) twoApart 0 = twoApart"
    using frame_deterministic[where cfg = cfg2 and g = "buildGrid cfg2 twoApart"
        and ps = twoApart and i = 0] d
    by (simp add: c)
  have u: "particle (particles (updatePhysics cfg1 1 4 wide (lone 16 50))) 0
      = (20, 5018 / 100, 384 / 100, 1728 / 10000, 16, 50)"
    using frame_deterministic[where cfg = cfg1 and dpr = 1 and gain = 4 and e = wide
        and st = "lone 16 50"] n v lone_allocated[of 16 50]
    by simp
  show ?thesis using c d r n u lone_allocated[of 16 50] by blast
qed

section \<open>Relaxation against its reference definition\<close>

lemma scan_step:
  "scan cfg ps i j acc =
     (if dist2 ps i j < (GRID_SIZE cfg)\<^sup>2 \<and> dist2 ps i j > 1 / 1000
      then acc @ [neighborOf ps i j] else acc)"
  by (cases "i = j") (simp_all add: scan_def Let_def dist2_def neighborOf_def power2_eq_square)

lemma scan_fold_filter:
  "fold (scan cfg ps i) js acc =
     acc @ map (neighborOf ps i)
       (filter (\<lambda>j. dist2 ps i j < (GRID_SIZE cfg)\<^sup>2 \<and> dist2 ps i j > 1 / 1000) js)"
  by (induction js arbitrary: acc) (simp_all add: scan_step)

lemma findNeighbors_ref:
  "findNeighbors cfg g ps i = map (neighborOf ps i) (trueNeighbors_ref cfg g ps i)"
  by (simp add: findNeighbors_def trueNeighbors_ref_def scan_fold_filter Let_def)

lemma density_step:
  "accumulateDensity cfg (neighborOf ps i j) (r, rn) =
     (r + (q_ref cfg ps i j)\<^sup>2, rn + (q_ref cfg ps i j) ^ 3)"
  by (simp add: Let_def neighborOf_def q_ref_def power2_eq_square power3_eq_cube)

lemma density_fold:
  "fold (accumulateDensity cfg) (map (neighborOf ps i) N) (r, rn) =
     (r + (\<Sum>j\<leftarrow>N. (q_ref cfg ps i j)\<^sup>2), rn + (\<Sum>j\<leftarrow>N. (q_ref cfg ps i j) ^ 3))"
  by (induction N arbitrary: r rn) (simp_all add: density_step add.assoc del: accumulateDensity.simps)

lemma displace_step:
  "displace cfg P PNear (neighborOf ps i j) (s, dx, dy) =
     (s\<lparr> pX := addAt (pX s) j (fst (push cfg P PNear ps i j)),
         pY := addAt (pY s) j (snd (push cfg P PNear ps i j)) \<rparr>,
      dx - fst (push cfg P PNear ps i j), dy - snd (push cfg P PNear ps i j))"
  by (simp add: Let_def neighborOf_def q_ref_def push_def power2_eq_square mult_ac)

lemma displace_fold:
  "fold (displace cfg P PNear) (map (neighborOf ps i) N) (s, dx, dy) =
     (fold (\<lambda>j s. s\<lparr> pX := addAt (pX s) j (fst (push cfg P PNear ps i j)),
                     pY := addAt (pY s) j (snd (push cfg P PNear ps i j)) \<rparr>) N s,
      dx - (\<Sum>j\<leftarrow>N. fst (push cfg P PNear ps i j)),
      dy - (\<Sum>j\<leftarrow>N. snd (push cfg P PNear ps i j)))"
  by (induction N arbitrary: s dx dy)
     (simp_all add: displace_step diff_diff_eq del: displace.simps)

lemma push_delta:
  "push cfg (P_ref cfg g ps i) (PNear_ref cfg g ps i) ps i j = delta_ref cfg g ps i j"
  by (simp add: push_def delta_ref_def Let_def)

text \<open>
  C4: one relaxation of particle \<open>i\<close>, as the code performs it (collect the neighbours,
  accumulate both densities, derive both pressures, displace each neighbour at once and
  the particle itself after the loop), equals the reference definition of double density
  relaxation, for every configuration, grid, particle set and index.  The test
  \<open>i === j\<close> of the code is subsumed by the lower bound 0.001 on the squared distance.
\<close>

theorem relaxParticle_is_reference:
  "relaxParticle cfg g ps i = relaxParticle_ref cfg g ps i"
proof -
  have d: "fold (accumulateDensity cfg) (findNeighbors cfg g ps i) (0, 0)
            = (rho_ref cfg g ps i, rhoNear_ref cfg g ps i)"
    by (simp add: findNeighbors_ref density_fold rho_ref_def rhoNear_ref_def)
  have p: "pressure cfg (rho_ref cfg g ps i) = P_ref cfg g ps i"
    "nearPressure cfg (rhoNear_ref cfg g ps i) = PNear_ref cfg g ps i"
    by (simp_all add: pressure_def nearPressure_def P_ref_def PNear_ref_def)
  show ?thesis
    unfolding relaxParticle_def relaxParticle_ref_def Let_def d prod.case p
    by (simp add: findNeighbors_ref displace_fold push_delta)
qed

section \<open>The boundaries of water.js\<close>

text \<open>
  In water.js, too, the margin of the clamp is the visual radius of the particle: for a
  canvas at least two radii wide and high the new position is the old one clamped to
  \<open>[radius, bound - radius]\<close>.
\<close>

lemma Particle_update_boundaries_clamps:
  assumes "2 * wradius p \<le> w" and "2 * wradius p \<le> h"
  shows "wx (Particle_update_boundaries w h p) = clampTo (wradius p) w (wx p) \<and>
         wy (Particle_update_boundaries w h p) = clampTo (wradius p) h (wy p)"
  using assms by (auto simp: Particle_update_boundaries_def Let_def clampTo_def min_def max_def)

section \<open>Pressure\<close>

lemma dist2_nonneg: "0 \<le> dist2 ps i j"
  by (simp add: dist2_def)

lemma q_ref_pos:
  assumes "dist2 ps i j < (GRID_SIZE cfg)\<^sup>2"
  shows "0 < q_ref cfg ps i j"
proof -
  have "sqrt (dist2 ps i j) < sqrt ((GRID_SIZE cfg)\<^sup>2)"
    using assms by (simp only: real_sqrt_less_iff)
  then have lt: "sqrt (dist2 ps i j) < \<bar>GRID_SIZE cfg\<bar>" by simp
  have nn: "0 \<le> sqrt (dist2 ps i j)" by (simp add: dist2_nonneg)
  show ?thesis
  proof (cases "0 < GRID_SIZE cfg")
    case True
    then have "sqrt (dist2 ps i j) / GRID_SIZE cfg < 1" using lt by simp
    then show ?thesis by (simp add: q_ref_def)
  next
    case False
    then have "sqrt (dist2 ps i j) / GRID_SIZE cfg \<le> 0"
      using nn by (simp add: divide_nonneg_nonpos)
    then show ?thesis by (simp add: q_ref_def)
  qed
qed

lemma neighbor_closeness_pos:
  assumes "n \<in> set (findNeighbors cfg g ps i)"
  shows "0 < 1 - nd n / GRID_SIZE cfg"
proof -
  obtain j where j: "n = neighborOf ps i j" "dist2 ps i j < (GRID_SIZE cfg)\<^sup>2"
    using assms by (auto simp: findNeighbors_ref trueNeighbors_ref_def)
  show ?thesis using q_ref_pos[OF j(2)] by (simp add: j(1) neighborOf_def q_ref_def)
qed

lemma block3_distinct: "distinct (block3 gx gy)"
  by (simp add: block3_def)

lemma concat_filter_distinct:
  "distinct ks \<Longrightarrow> distinct xs \<Longrightarrow>
   distinct (concat (map (\<lambda>k. filter (\<lambda>i. key i = k) xs) ks))"
  by (induction ks) auto

lemma buildGrid_cell_list:
  "(case buildGrid cfg ps k of None \<Rightarrow> [] | Some c \<Rightarrow> c)
     = filter (\<lambda>i. gridKey cfg (pX ps ! i) (pY ps ! i) = k) [0..<particleCount cfg]"
  by (simp add: buildGrid_cell)

lemma candidates_buildGrid_distinct: "distinct (candidates (buildGrid cfg ps) gx gy)"
  unfolding candidates_def buildGrid_cell_list
  by (rule concat_filter_distinct) (simp_all add: block3_distinct)

lemma push_fold_nth:
  assumes "distinct N" and "k < length (pX s)" and "k < length (pY s)"
  shows "pX (fold (\<lambda>j s. s\<lparr> pX := addAt (pX s) j (f j), pY := addAt (pY s) j (h j) \<rparr>) N s) ! k
           = pX s ! k + (if k \<in> set N then f k else 0) \<and>
         pY (fold (\<lambda>j s. s\<lparr> pX := addAt (pX s) j (f j), pY := addAt (pY s) j (h j) \<rparr>) N s) ! k
           = pY s ! k + (if k \<in> set N then h k else 0)"
  using assms
proof (induction N arbitrary: s)
  case Nil show ?case by simp
next
  case (Cons j N)
  let ?s = "s\<lparr> pX := addAt (pX s) j (f j), pY := addAt (pY s) j (h j) \<rparr>"
  have d: "distinct N" "j \<notin> set N" using Cons.prems(1) by simp_all
  have l: "k < length (pX ?s)" "k < length (pY ?s)" using Cons.prems(2,3) by simp_all
  have v: "pX ?s ! k = pX s ! k + (if k = j then f j else 0)"
    "pY ?s ! k = pY s ! k + (if k = j then h j else 0)"
    using Cons.prems(2,3) by (simp_all add: addAt_def nth_list_update)
  show ?case
    using Cons.IH[OF d(1) l] d(2) v by auto
qed

lemma push_fold_len:
  "length (pX (fold (\<lambda>j s. s\<lparr> pX := addAt (pX s) j (f j), pY := addAt (pY s) j (h j) \<rparr>) N s))
     = length (pX s) \<and>
   length (pY (fold (\<lambda>j s. s\<lparr> pX := addAt (pX s) j (f j), pY := addAt (pY s) j (h j) \<rparr>) N s))
     = length (pY s)"
  by (induction N arbitrary: s) simp_all

lemma trueNeighbors_distinct: "distinct (trueNeighbors_ref cfg (buildGrid cfg ps0) ps i)"
  by (simp add: trueNeighbors_ref_def candidates_buildGrid_distinct)

lemma trueNeighbors_bound:
  "j \<in> set (trueNeighbors_ref cfg (buildGrid cfg ps0) ps i) \<Longrightarrow> j < particleCount cfg \<and> j \<noteq> i"
  using candidates_buildGrid_bound[of j cfg ps0]
  by (auto simp: trueNeighbors_ref_def dist2_def)

lemma relaxParticle_moved:
  "relaxParticle cfg g ps i =
    (let N = trueNeighbors_ref cfg g ps i;
         moved = fold (\<lambda>j s. s\<lparr> pX := addAt (pX s) j (fst (delta_ref cfg g ps i j)),
                               pY := addAt (pY s) j (snd (delta_ref cfg g ps i j)) \<rparr>) N ps
     in moved\<lparr> pX := addAt (pX moved) i (- (\<Sum>j\<leftarrow>N. fst (delta_ref cfg g ps i j))),
               pY := addAt (pY moved) i (- (\<Sum>j\<leftarrow>N. snd (delta_ref cfg g ps i j))) \<rparr>)"
proof -
  have d: "fold (accumulateDensity cfg) (findNeighbors cfg g ps i) (0, 0)
            = (rho_ref cfg g ps i, rhoNear_ref cfg g ps i)"
    by (simp add: findNeighbors_ref density_fold rho_ref_def rhoNear_ref_def)
  have p: "pressure cfg (rho_ref cfg g ps i) = P_ref cfg g ps i"
    "nearPressure cfg (rhoNear_ref cfg g ps i) = PNear_ref cfg g ps i"
    by (simp_all add: pressure_def nearPressure_def P_ref_def PNear_ref_def)
  show ?thesis
    unfolding relaxParticle_def Let_def d prod.case p
    by (simp add: findNeighbors_ref displace_fold push_delta)
qed

lemma relaxParticle_neighbour:
  assumes "allocated cfg ps" and "j \<in> set (trueNeighbors_ref cfg (buildGrid cfg ps0) ps i)"
  shows "pX (relaxParticle cfg (buildGrid cfg ps0) ps i) ! j
           = pX ps ! j + fst (delta_ref cfg (buildGrid cfg ps0) ps i j) \<and>
         pY (relaxParticle cfg (buildGrid cfg ps0) ps i) ! j
           = pY ps ! j + snd (delta_ref cfg (buildGrid cfg ps0) ps i j)"
proof -
  let ?g = "buildGrid cfg ps0"
  let ?N = "trueNeighbors_ref cfg ?g ps i"
  let ?moved = "fold (\<lambda>j s. s\<lparr> pX := addAt (pX s) j (fst (delta_ref cfg ?g ps i j)),
                               pY := addAt (pY s) j (snd (delta_ref cfg ?g ps i j)) \<rparr>) ?N ps"
  have b: "j < particleCount cfg" "j \<noteq> i" using trueNeighbors_bound[OF assms(2)] by simp_all
  have l: "j < length (pX ps)" "j < length (pY ps)" using assms(1) b(1) by (simp_all add: allocated_def)
  have m: "pX ?moved ! j = pX ps ! j + fst (delta_ref cfg ?g ps i j)"
    "pY ?moved ! j = pY ps ! j + snd (delta_ref cfg ?g ps i j)"
    using push_fold_nth[OF trueNeighbors_distinct[of cfg ps0 ps i] l,
        where f = "\<lambda>j. fst (delta_ref cfg ?g ps i j)" and h = "\<lambda>j. snd (delta_ref cfg ?g ps i j)"]
      assms(2)
    by simp_all
  show ?thesis
    using b(2) m by (simp add: relaxParticle_moved Let_def addAt_def)
qed

lemma density_of_code:
  "fold (accumulateDensity cfg) (findNeighbors cfg g ps i) (0, 0)
     = (rho_ref cfg g ps i, rhoNear_ref cfg g ps i)"
  by (simp add: findNeighbors_ref density_fold rho_ref_def rhoNear_ref_def)

lemma relax_relaxUpTo: "relax cfg g s = relaxUpTo cfg g (particleCount cfg) s"
  by (simp add: relax_def relaxUpTo_def)

lemma relaxUpTo_Suc: "relaxUpTo cfg g (Suc k) s = relaxParticle cfg g (relaxUpTo cfg g k s) k"
  by (simp add: relaxUpTo_def)

text \<open>
  C7: the pressure is \<open>stiffness * (rho - restDensity)\<close>, with no clamp, and it enters
  the displacement as it is.  Let \<open>rho\<close> and \<open>rhoNear\<close> be the densities that the code
  accumulates for particle \<open>i\<close>, with \<open>rho\<close> below \<open>restDensity\<close> and \<open>stiffness\<close>
  positive, and let \<open>n\<close> be one of its neighbours (the grid is one built by \<open>buildGrid\<close>,
  from these or from earlier positions).  Then the pressure is strictly negative; its
  share \<open>P * q\<close> of the displacement scalar is strictly negative; \<open>relaxParticle\<close> moves
  the neighbour by exactly \<open>0.5 * (P * q + PNear * q * q)\<close> along the unit vector from
  the particle to the neighbour; and this scalar is strictly below
  \<open>0.5 * (PNear * q * q)\<close>, the value it would have with the pressure clamped to zero:
  the pressure draws the neighbour towards the particle.  (The near pressure pushes the
  other way, and for a close pair it can outweigh the pressure.)  The loop \<open>relax\<close>
  applies \<open>relaxParticle\<close> to every particle in turn, in the state it has reached.
\<close>

theorem pressure_negative_below_restDensity:
  assumes "allocated cfg ps"
    and "fold (accumulateDensity cfg) (findNeighbors cfg (buildGrid cfg ps0) ps i) (0, 0) = (rho, rhoNear)"
    and "rho < restDensity cfg" and "0 < stiffness cfg"
    and "n \<in> set (findNeighbors cfg (buildGrid cfg ps0) ps i)"
  shows "pressure cfg rho = stiffness cfg * (rho - restDensity cfg) \<and> pressure cfg rho < 0 \<and>
         pressure cfg rho * (1 - nd n / GRID_SIZE cfg) < 0 \<and>
         pX (relaxParticle cfg (buildGrid cfg ps0) ps i) ! nid n
           = pX ps ! nid n + (ndx n / nd n) *
               ((1 / 2) * (pressure cfg rho * (1 - nd n / GRID_SIZE cfg)
                  + nearPressure cfg rhoNear * (1 - nd n / GRID_SIZE cfg) * (1 - nd n / GRID_SIZE cfg))) \<and>
         pY (relaxParticle cfg (buildGrid cfg ps0) ps i) ! nid n
           = pY ps ! nid n + (ndy n / nd n) *
               ((1 / 2) * (pressure cfg rho * (1 - nd n / GRID_SIZE cfg)
                  + nearPressure cfg rhoNear * (1 - nd n / GRID_SIZE cfg) * (1 - nd n / GRID_SIZE cfg))) \<and>
         (1 / 2) * (pressure cfg rho * (1 - nd n / GRID_SIZE cfg)
              + nearPressure cfg rhoNear * (1 - nd n / GRID_SIZE cfg) * (1 - nd n / GRID_SIZE cfg))
           < (1 / 2) * (nearPressure cfg rhoNear * (1 - nd n / GRID_SIZE cfg) * (1 - nd n / GRID_SIZE cfg)) \<and>
         relax cfg g s = relaxUpTo cfg g (particleCount cfg) s \<and>
         relaxUpTo cfg g (Suc k) s = relaxParticle cfg g (relaxUpTo cfg g k s) k"
proof -
  let ?g = "buildGrid cfg ps0"
  let ?q = "1 - nd n / GRID_SIZE cfg"
  have r: "rho = rho_ref cfg ?g ps i" "rhoNear = rhoNear_ref cfg ?g ps i"
    using assms(2) by (simp_all add: density_of_code)
  obtain j where j: "n = neighborOf ps i j" "j \<in> set (trueNeighbors_ref cfg ?g ps i)"
    using assms(5) by (auto simp: findNeighbors_ref)
  have neg: "pressure cfg rho < 0"
    using assms(3,4) by (simp add: pressure_def mult_pos_neg)
  have q: "0 < ?q" using assms(5) by (rule neighbor_closeness_pos)
  have pq: "pressure cfg rho * ?q < 0" using neg q by (rule mult_neg_pos)
  have n: "nid n = j" "nd n = sqrt (dist2 ps i j)" "ndx n = pX ps ! j - pX ps ! i"
    "ndy n = pY ps ! j - pY ps ! i"
    by (simp_all add: j(1) neighborOf_def)
  have dl: "fst (delta_ref cfg ?g ps i j) = (ndx n / nd n) *
               ((1 / 2) * (pressure cfg rho * ?q + nearPressure cfg rhoNear * ?q * ?q))"
    "snd (delta_ref cfg ?g ps i j) = (ndy n / nd n) *
               ((1 / 2) * (pressure cfg rho * ?q + nearPressure cfg rhoNear * ?q * ?q))"
    by (simp_all add: delta_ref_def Let_def n r q_ref_def P_ref_def PNear_ref_def pressure_def
        nearPressure_def power2_eq_square mult_ac)
  note mv = relaxParticle_neighbour[OF assms(1) j(2)]
  have x: "pX (relaxParticle cfg ?g ps i) ! nid n = pX ps ! nid n + (ndx n / nd n) *
               ((1 / 2) * (pressure cfg rho * ?q + nearPressure cfg rhoNear * ?q * ?q))"
    using mv by (simp only: n(1) dl(1))
  have y: "pY (relaxParticle cfg ?g ps i) ! nid n = pY ps ! nid n + (ndy n / nd n) *
               ((1 / 2) * (pressure cfg rho * ?q + nearPressure cfg rhoNear * ?q * ?q))"
    using mv by (simp only: n(1) dl(2))
  have lt: "(1 / 2) * (pressure cfg rho * ?q + nearPressure cfg rhoNear * ?q * ?q)
           < (1 / 2) * (nearPressure cfg rhoNear * ?q * ?q)"
    using pq by simp
  have p: "pressure cfg rho = stiffness cfg * (rho - restDensity cfg)" by (simp add: pressure_def)
  show ?thesis
    by (intro conjI p neg pq x y lt relax_relaxUpTo relaxUpTo_Suc)
qed

lemma upt2: "[0..<2] = [0, 1]" by (simp add: upt_rec)

lemma twoNear_neighbors:
  "findNeighbors cfg2 (buildGrid cfg2 twoNear) twoNear 0 = [\<lparr> nid = 1, nd = 15, ndx = 15, ndy = 0 \<rparr>]"
  by (simp add: findNeighbors_def candidates_def block3_def scan_def buildGrid_def gridInsert_def
      gridKey_def cfg2_def CONFIG_V5_def twoNear_def GRID_SIZE_def Let_def upt2)

theorem pressure_negative_below_restDensity_witness:
  "allocated cfg2 twoNear \<and>
   findNeighbors cfg2 (buildGrid cfg2 twoNear) twoNear 0 = [\<lparr> nid = 1, nd = 15, ndx = 15, ndy = 0 \<rparr>] \<and>
   fold (accumulateDensity cfg2) (findNeighbors cfg2 (buildGrid cfg2 twoNear) twoNear 0) (0, 0)
      = (1 / 4, 1 / 8) \<and>
   1 / 4 < restDensity cfg2 \<and> 0 < stiffness cfg2 \<and>
   pressure cfg2 (1 / 4) = - (11 / 200) \<and>
   pX twoNear ! 0 = 85 \<and> pX twoNear ! 1 = 100 \<and>
   pX (relaxParticle cfg2 (buildGrid cfg2 twoNear) twoNear 0) ! 1 = 100 - 39 / 3200 \<and>
   pY (relaxParticle cfg2 (buildGrid cfg2 twoNear) twoNear 0) ! 1 = 100"
proof -
  let ?n = "\<lparr> nid = 1, nd = 15, ndx = 15, ndy = 0 \<rparr>"
  have al: "allocated cfg2 twoNear" by (simp add: allocated_def cfg2_def CONFIG_V5_def twoNear_def)
  have h: "fold (accumulateDensity cfg2) (findNeighbors cfg2 (buildGrid cfg2 twoNear) twoNear 0) (0, 0)
      = (1 / 4, 1 / 8)"
    unfolding twoNear_neighbors by (simp add: GRID_SIZE_def cfg2_def CONFIG_V5_def Let_def)
  have k: "1 / 4 < restDensity cfg2" "0 < stiffness cfg2"
    by (simp_all add: cfg2_def CONFIG_V5_def)
  have m: "?n \<in> set (findNeighbors cfg2 (buildGrid cfg2 twoNear) twoNear 0)"
    by (simp add: twoNear_neighbors)
  note t = pressure_negative_below_restDensity[OF al h k m]
  have c: "stiffness cfg2 * (1 / 4 - restDensity cfg2) = - (11 / 200)"
    "nearPressure cfg2 (1 / 8) = 1 / 80" "GRID_SIZE cfg2 = 30"
    by (simp_all add: cfg2_def CONFIG_V5_def nearPressure_def GRID_SIZE_def)
  have v: "pX twoNear ! 0 = 85" "pX twoNear ! 1 = 100" "pY twoNear ! 1 = 100"
    by (simp_all add: twoNear_def)
  have v': "pX twoNear ! Suc 0 = 100" "pY twoNear ! Suc 0 = 100"
    by (simp_all add: twoNear_def)
  have p: "pressure cfg2 (1 / 4) = - (11 / 200)"
    using t[THEN conjunct1] c(1) by simp
  note x = t[THEN conjunct2, THEN conjunct2, THEN conjunct2, THEN conjunct1]
  note y = t[THEN conjunct2, THEN conjunct2, THEN conjunct2, THEN conjunct2, THEN conjunct1]
  have x': "pX (relaxParticle cfg2 (buildGrid cfg2 twoNear) twoNear 0) ! 1 = 100 - 39 / 3200"
    using x unfolding p c by (simp add: v')
  have y': "pY (relaxParticle cfg2 (buildGrid cfg2 twoNear) twoNear 0) ! 1 = 100"
    using y unfolding p c by (simp add: v')
  show ?thesis
    by (intro conjI al twoNear_neighbors h k p v(1) v(2) x' y')
qed

section \<open>The pointer on a particle\<close>

text \<open>
  Where the pointer branch does not divide zero by zero, prediction with JavaScript
  numbers is prediction over the reals: the idealisation used for the rest of the frame
  loses nothing there.
\<close>

lemma predict_js_agrees:
  assumes "\<not> (pointerDown e \<and> a = pointerX e * dpr \<and> b = pointerY e * dpr
              \<and> interactionRadius cfg * dpr \<noteq> 0)"
  shows "predictParticle_js cfg e (Fin dpr) gain (finiteParticle (a, b, c, d, p, q))
           = finiteParticle (predictOne cfg e dpr gain (a, b, c, d, p, q))"
proof -
  let ?dx = "a - pointerX e * dpr" and ?dy = "b - pointerY e * dpr"
  let ?d2 = "?dx * ?dx + ?dy * ?dy"
  let ?iR = "interactionRadius cfg * dpr"
  have nn: "0 \<le> ?d2" by simp
  show ?thesis
  proof (cases "pointerDown e \<and> ?d2 < ?iR * ?iR")
    case False
    then show ?thesis
      by (auto simp: predictParticle_js_def impulse_def js_sub_def Let_def)
  next
    case True
    then have "0 < ?iR * ?iR" using nn by linarith
    then have iR: "?iR \<noteq> 0" by auto
    have "?d2 \<noteq> 0"
    proof
      assume z: "?d2 = 0"
      then have "?dx = 0 \<and> ?dy = 0"
        by (simp add: add_nonneg_eq_0_iff)
      then show False using assms True iR by simp
    qed
    then have d: "sqrt ?d2 \<noteq> 0" by simp
    have d': "\<not> ?d2 < 0" using nn by linarith
    show ?thesis
      using True iR d d'
      by (simp add: predictParticle_js_def impulse_def js_sub_def Let_def)
  qed
qed

text \<open>
  C8: with the pointer down exactly on a particle, the squared distance 0 passes the
  guard \<open>d2 < iR * iR\<close>, \<open>d\<close> is 0 and \<open>dx / d\<close> is 0 / 0: the predicted velocity
  and then the position of the particle are NaN, with the constants and pointer code of
  the V5, "AR Water Simulation" and "High Performance" generations alike.  The
  relaxation has a guard that this path lacks: a coincident pair has squared distance 0,
  which fails \<open>d2 > 0.001\<close>, and is not pushed as a neighbour.
\<close>

theorem pointer_on_particle_gives_NaN:
  "predictParticle_js CONFIG_V5 touchingV5
       (js_div (Fin (width touchingV5)) (Fin (innerWidth touchingV5))) 4 underPointer
     = \<lparr> jx = NaN, jy = NaN, jvx = NaN, jvy = NaN, jprevX = Fin 300, jprevY = Fin 200 \<rparr> \<and>
   predictParticle_js CONFIG_AR touching (Fin 1) 3 underPointer
     = \<lparr> jx = NaN, jy = NaN, jvx = NaN, jvy = NaN, jprevX = Fin 300, jprevY = Fin 200 \<rparr> \<and>
   predictParticle_js CONFIG_LITE touching (Fin 1) 2 underPointer
     = \<lparr> jx = NaN, jy = NaN, jvx = NaN, jvy = NaN, jprevX = Fin 300, jprevY = Fin 200 \<rparr> \<and>
   dist2 coincident 0 1 = 0 \<and>
   scan cfg2 coincident 0 1 [] = []"
  by (simp add: predictParticle_js_def touching_def touchingV5_def underPointer_def CONFIG_V5_def CONFIG_AR_def
      CONFIG_LITE_def js_sub_def Let_def dist2_def scan_def coincident_def cfg2_def GRID_SIZE_def)

section \<open>Boundary containment\<close>

lemma enforceParticle_lite_one:
  "enforceParticle_lite cfg e ps i = setParticle ps i (enforceOne_lite cfg e (particle ps i))"
proof -
  have x: "(if pX ps ! i < radius cfg then (pX ps)[i := radius cfg]
            else if pX ps ! i > width e - radius cfg then (pX ps)[i := width e - radius cfg]
            else pX ps) = (pX ps)[i := clampElse (radius cfg) (width e) (pX ps ! i)]"
    by (simp add: clampElse_def)
  have y: "(if pY ps ! i < radius cfg then (pY ps)[i := radius cfg]
            else if pY ps ! i > height e - radius cfg then (pY ps)[i := height e - radius cfg]
            else pY ps) = (pY ps)[i := clampElse (radius cfg) (height e) (pY ps ! i)]"
    by (simp add: clampElse_def)
  show ?thesis
    unfolding enforceParticle_lite_def Let_def x y by (simp add: particle_def)
qed

lemma enforceBounds_lite_eq:
  "allocated cfg ps \<Longrightarrow>
   enforceBounds_lite cfg e ps
     = mapFirst (particleCount cfg) (particleCount cfg) (enforceOne_lite cfg e) ps"
  unfolding enforceBounds_lite_def by (rule pointwise_fold) (simp_all add: enforceParticle_lite_one)

lemma enforceBounds_lite_nth:
  assumes "allocated cfg ps" and "i < particleCount cfg"
  shows "pX (enforceBounds_lite cfg e ps) ! i = clampElse (radius cfg) (width e) (pX ps ! i)"
    and "pY (enforceBounds_lite cfg e ps) ! i = clampElse (radius cfg) (height e) (pY ps ! i)"
  using assms(2) by (simp_all add: enforceBounds_lite_eq[OF assms(1)] mapFirst_def particle_def)

lemma relax_allocated: "allocated cfg ps \<Longrightarrow> allocated cfg (relax cfg g ps)"
  using relax_positionsOnly by (rule positionsOnly_allocated)

lemma substep_lite_particles:
  "particles (substep_lite cfg e st) = enforceBounds_lite cfg e (relax cfg (grid st) (particles st))"
  by (simp add: substep_lite_def)

lemma clampTo_within:
  assumes "p \<le> m" and "m + p \<le> b"
  shows "p \<le> clampTo m b c \<and> clampTo m b c \<le> b - p"
  using assms by (auto simp: clampTo_def)

lemma clampElse_within:
  assumes "p \<le> m" and "m + p \<le> b"
  shows "p \<le> clampElse m b c \<and> clampElse m b c \<le> b - p"
  using assms by (auto simp: clampElse_def)

lemma clampElse_clampTo: "2 * m \<le> b \<Longrightarrow> clampElse m b c = clampTo m b c"
  by (auto simp: clampElse_def clampTo_def)

lemma enforceCoord_js_Fin: "enforceCoord_js m b (Fin c) = Fin (clampTo m b c)"
  by (auto simp: enforceCoord_js_def js_sub_def clampTo_def Let_def min_def max_def)

lemma enforceCoord_lite_js_Fin: "enforceCoord_lite_js m b (Fin c) = Fin (clampElse m b c)"
  by (auto simp: enforceCoord_lite_js_def js_sub_def clampElse_def)

lemma enforceCoord_js_NaN: "enforceCoord_js m b NaN = NaN" "enforceCoord_lite_js m b NaN = NaN"
  by (simp_all add: enforceCoord_js_def enforceCoord_lite_js_def js_sub_def)

lemma enforceCoord_js_within:
  assumes "c \<noteq> NaN" and "p \<le> m" and "m + p \<le> b"
  shows "\<exists>r. enforceCoord_js m b c = Fin r \<and> p \<le> r \<and> r \<le> b - p"
proof (cases c)
  case (Fin a)
  then show ?thesis using clampTo_within[OF assms(2,3), of a] by (simp add: enforceCoord_js_Fin)
next
  case PosInf
  then show ?thesis using assms(2,3) by (auto simp: enforceCoord_js_def js_sub_def Let_def)
next
  case NegInf
  then show ?thesis using assms(2,3) by (auto simp: enforceCoord_js_def js_sub_def Let_def)
next
  case NaN
  then show ?thesis using assms(1) by simp
qed

lemma enforceCoord_lite_js_within:
  assumes "c \<noteq> NaN" and "p \<le> m" and "m + p \<le> b"
  shows "\<exists>r. enforceCoord_lite_js m b c = Fin r \<and> p \<le> r \<and> r \<le> b - p"
proof (cases c)
  case (Fin a)
  then show ?thesis using clampElse_within[OF assms(2,3), of a] by (simp add: enforceCoord_lite_js_Fin)
next
  case PosInf
  then show ?thesis using assms(2,3) by (auto simp: enforceCoord_lite_js_def js_sub_def)
next
  case NegInf
  then show ?thesis using assms(2,3) by (auto simp: enforceCoord_lite_js_def js_sub_def)
next
  case NaN
  then show ?thesis using assms(1) by simp
qed

text \<open>
  C2, as stated, fails in two ways.  The margin of the clamp is \<open>CONFIG.radius\<close>, and
  on a canvas narrower than \<open>radius + physRadius\<close> the second \<open>if\<close> moves a particle
  below \<open>physRadius\<close>: V5 constants (radius 20, physRadius 15), one particle at
  (16, 50), canvas 32 by 100, and after the substep the particle is at x = 12.  And a
  position that is NaN, as prediction leaves it for a particle exactly under the pointer,
  fails both comparisons of the clamp and is still NaN after the boundary pass.
\<close>

theorem substep_narrow_canvas_below_physRadius:
  "\<not> (physRadius cfg1 \<le> pX (particles (substep cfg1 narrow (lone 16 50))) ! 0 \<and>
      pX (particles (substep cfg1 narrow (lone 16 50))) ! 0 \<le> width narrow - physRadius cfg1) \<and>
   jx (predictParticle_js CONFIG_V5 touchingV5
         (js_div (Fin (width touchingV5)) (Fin (innerWidth touchingV5))) 4 underPointer) = NaN \<and>
   enforceCoord_js (radius CONFIG_V5) (width touchingV5)
      (jx (predictParticle_js CONFIG_V5 touchingV5
         (js_div (Fin (width touchingV5)) (Fin (innerWidth touchingV5))) 4 underPointer)) = NaN"
proof -
  have a: "\<not> (physRadius cfg1 \<le> pX (particles (substep cfg1 narrow (lone 16 50))) ! 0 \<and>
      pX (particles (substep cfg1 narrow (lone 16 50))) ! 0 \<le> width narrow - physRadius cfg1)"
    by (simp add: substep_narrow) (simp add: cfg1_def CONFIG_V5_def)
  have b: "jx (predictParticle_js CONFIG_V5 touchingV5
         (js_div (Fin (width touchingV5)) (Fin (innerWidth touchingV5))) 4 underPointer) = NaN"
    by (simp add: predictParticle_js_def touchingV5_def underPointer_def CONFIG_V5_def js_sub_def Let_def)
  show ?thesis unfolding b by (intro conjI a refl enforceCoord_js_NaN)
qed

text \<open>
  C2, amended: if all positions are finite numbers when a substep starts, the visual
  radius is at least the physics radius (as in every generation's constants) and the
  canvas is at least \<open>radius + physRadius\<close> wide and high, then every particle lies
  within \<open>[physRadius, bound - physRadius]\<close> on both axes immediately after the substep.
  The first four inequalities are for the substep that ends with the two \<open>if\<close>s, the
  next four for the substep of the "High Performance" generation, whose clamp is written
  with \<open>else if\<close>.  The type \<open>particleSet\<close> holds finite numbers only; the last
  conjunct is the boundary pass on a JavaScript number: every coordinate that is not NaN,
  the infinities included, is put into the interval, by either form of the clamp.
\<close>

theorem substep_within_bounds:
  assumes "allocated cfg (particles st)" and "i < particleCount cfg"
    and "physRadius cfg \<le> radius cfg"
    and "radius cfg + physRadius cfg \<le> width e"
    and "radius cfg + physRadius cfg \<le> height e"
  shows "physRadius cfg \<le> pX (particles (substep cfg e st)) ! i \<and>
         pX (particles (substep cfg e st)) ! i \<le> width e - physRadius cfg \<and>
         physRadius cfg \<le> pY (particles (substep cfg e st)) ! i \<and>
         pY (particles (substep cfg e st)) ! i \<le> height e - physRadius cfg \<and>
         physRadius cfg \<le> pX (particles (substep_lite cfg e st)) ! i \<and>
         pX (particles (substep_lite cfg e st)) ! i \<le> width e - physRadius cfg \<and>
         physRadius cfg \<le> pY (particles (substep_lite cfg e st)) ! i \<and>
         pY (particles (substep_lite cfg e st)) ! i \<le> height e - physRadius cfg \<and>
         (c \<noteq> NaN \<longrightarrow>
            (\<exists>r. enforceCoord_js (radius cfg) (width e) c = Fin r \<and>
                 physRadius cfg \<le> r \<and> r \<le> width e - physRadius cfg) \<and>
            (\<exists>r. enforceCoord_js (radius cfg) (height e) c = Fin r \<and>
                 physRadius cfg \<le> r \<and> r \<le> height e - physRadius cfg) \<and>
            (\<exists>r. enforceCoord_lite_js (radius cfg) (width e) c = Fin r \<and>
                 physRadius cfg \<le> r \<and> r \<le> width e - physRadius cfg) \<and>
            (\<exists>r. enforceCoord_lite_js (radius cfg) (height e) c = Fin r \<and>
                 physRadius cfg \<le> r \<and> r \<le> height e - physRadius cfg))"
proof -
  let ?ps1 = "relax cfg (buildGrid cfg (particles st)) (particles st)"
  let ?qs1 = "relax cfg (grid st) (particles st)"
  have len: "length (pX ?ps1) = particleCount cfg" "length (pY ?ps1) = particleCount cfg"
    using assms(1) relax_len[of cfg "buildGrid cfg (particles st)" "particles st"]
    by (simp_all add: allocated_def)
  have x: "pX (particles (substep cfg e st)) ! i = clampTo (radius cfg) (width e) (pX ?ps1 ! i)"
    using len assms(2) by (simp add: substep_particles enforceBounds_pX)
  have y: "pY (particles (substep cfg e st)) ! i = clampTo (radius cfg) (height e) (pY ?ps1 ! i)"
    using len assms(2) by (simp add: substep_particles enforceBounds_pY)
  have al: "allocated cfg ?qs1" using assms(1) by (rule relax_allocated)
  have u: "pX (particles (substep_lite cfg e st)) ! i = clampElse (radius cfg) (width e) (pX ?qs1 ! i)"
    and v: "pY (particles (substep_lite cfg e st)) ! i = clampElse (radius cfg) (height e) (pY ?qs1 ! i)"
    by (simp_all add: substep_lite_particles enforceBounds_lite_nth[OF al assms(2)])
  show ?thesis
    unfolding x y u v
    using clampTo_within[OF assms(3,4)] clampTo_within[OF assms(3,5)]
      clampElse_within[OF assms(3,4)] clampElse_within[OF assms(3,5)]
      enforceCoord_js_within[OF _ assms(3,4), of c] enforceCoord_js_within[OF _ assms(3,5), of c]
      enforceCoord_lite_js_within[OF _ assms(3,4), of c]
      enforceCoord_lite_js_within[OF _ assms(3,5), of c]
    by (intro conjI impI) blast+
qed

theorem substep_within_bounds_witness:
  "allocated cfg1 (particles (lone 16 50)) \<and> (0::nat) < particleCount cfg1 \<and>
   physRadius cfg1 \<le> radius cfg1 \<and> radius cfg1 + physRadius cfg1 \<le> width wide \<and>
   radius cfg1 + physRadius cfg1 \<le> height wide \<and>
   physRadius cfg1 \<le> pX (particles (substep cfg1 wide (lone 16 50))) ! 0 \<and>
   pX (particles (substep cfg1 wide (lone 16 50))) ! 0 \<le> width wide - physRadius cfg1 \<and>
   physRadius cfg1 \<le> pY (particles (substep cfg1 wide (lone 16 50))) ! 0 \<and>
   pY (particles (substep cfg1 wide (lone 16 50))) ! 0 \<le> height wide - physRadius cfg1 \<and>
   physRadius cfg1 \<le> pX (particles (substep_lite cfg1 wide (lone 16 50))) ! 0 \<and>
   pX (particles (substep_lite cfg1 wide (lone 16 50))) ! 0 \<le> width wide - physRadius cfg1 \<and>
   PosInf \<noteq> NaN \<and>
   (\<exists>r. enforceCoord_js (radius cfg1) (width wide) PosInf = Fin r \<and>
        physRadius cfg1 \<le> r \<and> r \<le> width wide - physRadius cfg1)"
proof -
  have h: "(0::nat) < particleCount cfg1" "physRadius cfg1 \<le> radius cfg1"
    "radius cfg1 + physRadius cfg1 \<le> width wide" "radius cfg1 + physRadius cfg1 \<le> height wide"
    by (simp_all add: cfg1_def CONFIG_V5_def wide_def)
  have n: "PosInf \<noteq> NaN" by simp
  note t = substep_within_bounds[OF lone_allocated h, where c = PosInf]
  show ?thesis
    using lone_allocated[of 16 50] h n t by (intro conjI) blast+
qed

lemma Particle_update_boundaries_else:
  "wx (Particle_update_boundaries w h p) = clampElse (wradius p) w (wx p) \<and>
   wy (Particle_update_boundaries w h p) = clampElse (wradius p) h (wy p)"
  by (simp add: Particle_update_boundaries_def Let_def clampElse_def)

text \<open>
  C3, as stated, fails: the margin is the visual radius, not \<open>physRadius\<close>.  V5
  constants, canvas 1000 by 800: a coordinate 17 lies inside \<open>[15, 985]\<close>, and the
  enforcement moves it to 20.  Nor is the result always a minimum of a maximum: on a
  canvas 20 wide the \<open>else if\<close> clamp of the "High Performance" generation (radius 12,
  physRadius 10) and that of water.js (radius 12) move a coordinate 5 to 12, where the
  formula gives 10 with \<open>physRadius\<close> and 8 with the radius.
\<close>

theorem enforceBounds_margin_not_physRadius:
  "pX (enforceBounds cfg1 wide (particles (lone 17 50))) ! 0 = 20 \<and>
   min (max (pX (particles (lone 17 50)) ! 0) (physRadius cfg1)) (width wide - physRadius cfg1) = 17 \<and>
   pX (enforceBounds_lite cfg1_lite tiny (particles (lone 5 50))) ! 0 = 12 \<and>
   min (max (pX (particles (lone 5 50)) ! 0) (physRadius cfg1_lite)) (width tiny - physRadius cfg1_lite) = 10 \<and>
   min (max (pX (particles (lone 5 50)) ! 0) (radius cfg1_lite)) (width tiny - radius cfg1_lite) = 8 \<and>
   wx (Particle_update_boundaries 20 100 droplet) = 12 \<and>
   min (max (wx droplet) (wradius droplet)) (20 - wradius droplet) = 8"
  by (simp add: enforceBounds_def enforceParticle_def enforceBounds_lite_def enforceParticle_lite_def
      Particle_update_boundaries_def cfg1_def cfg1_lite_def CONFIG_V5_def CONFIG_LITE_def wide_def
      tiny_def lone_def droplet_def Let_def)

text \<open>
  C3, amended: the margin of the boundary enforcement is the visual radius
  (\<open>CONFIG.radius\<close>; in water.js the particle's own radius), not \<open>physRadius\<close>.  In
  the V5, "Debug Mode" and "AR Water Simulation" generations (two \<open>if\<close>s in sequence) the
  enforcement at the end of a substep sets each finite coordinate to exactly
  \<open>min (max coordinate radius) (bound - radius)\<close>.  In the "High Performance" generation
  and in water.js (\<open>else if\<close>) it sets it to \<open>radius\<close> if it is below \<open>radius\<close>,
  otherwise to \<open>bound - radius\<close> if it is above that, otherwise leaves it; this is the
  same value whenever the bound is at least two radii.  In every generation a coordinate
  inside \<open>[radius, bound - radius]\<close> is left unchanged.  The last two conjuncts are the
  two forms of the clamp on a finite JavaScript number.
\<close>

theorem enforceBounds_clamps_to_radius:
  assumes "allocated cfg ps" and "i < particleCount cfg"
  shows "pX (enforceBounds cfg e ps) ! i = min (max (pX ps ! i) (radius cfg)) (width e - radius cfg) \<and>
         pY (enforceBounds cfg e ps) ! i = min (max (pY ps ! i) (radius cfg)) (height e - radius cfg) \<and>
         pX (enforceBounds_lite cfg e ps) ! i =
           (if pX ps ! i < radius cfg then radius cfg
            else if pX ps ! i > width e - radius cfg then width e - radius cfg else pX ps ! i) \<and>
         pY (enforceBounds_lite cfg e ps) ! i =
           (if pY ps ! i < radius cfg then radius cfg
            else if pY ps ! i > height e - radius cfg then height e - radius cfg else pY ps ! i) \<and>
         (2 * radius cfg \<le> width e \<longrightarrow>
            pX (enforceBounds_lite cfg e ps) ! i
              = min (max (pX ps ! i) (radius cfg)) (width e - radius cfg)) \<and>
         (2 * radius cfg \<le> height e \<longrightarrow>
            pY (enforceBounds_lite cfg e ps) ! i
              = min (max (pY ps ! i) (radius cfg)) (height e - radius cfg)) \<and>
         wx (Particle_update_boundaries w h p) =
           (if wx p < wradius p then wradius p
            else if wx p > w - wradius p then w - wradius p else wx p) \<and>
         wy (Particle_update_boundaries w h p) =
           (if wy p < wradius p then wradius p
            else if wy p > h - wradius p then h - wradius p else wy p) \<and>
         enforceCoord_js (radius cfg) b (Fin c) = Fin (min (max c (radius cfg)) (b - radius cfg)) \<and>
         enforceCoord_lite_js (radius cfg) b (Fin c) =
           Fin (if c < radius cfg then radius cfg
                else if c > b - radius cfg then b - radius cfg else c)"
proof -
  have two: "pX (enforceBounds cfg e ps) ! i = clampTo (radius cfg) (width e) (pX ps ! i)"
    "pY (enforceBounds cfg e ps) ! i = clampTo (radius cfg) (height e) (pY ps ! i)"
    using assms by (simp_all add: allocated_def enforceBounds_pX enforceBounds_pY)
  note lite = enforceBounds_lite_nth[OF assms, of e]
  have lx: "2 * radius cfg \<le> width e \<longrightarrow>
      pX (enforceBounds_lite cfg e ps) ! i = clampTo (radius cfg) (width e) (pX ps ! i)"
    and ly: "2 * radius cfg \<le> height e \<longrightarrow>
      pY (enforceBounds_lite cfg e ps) ! i = clampTo (radius cfg) (height e) (pY ps ! i)"
    by (simp_all add: lite clampElse_clampTo)
  note water = Particle_update_boundaries_else[of w h p]
  show ?thesis
    using two lite lx ly water enforceCoord_js_Fin[of "radius cfg" b c]
      enforceCoord_lite_js_Fin[of "radius cfg" b c]
    unfolding clampTo_def clampElse_def by (intro conjI) blast+
qed

theorem enforceBounds_clamps_to_radius_witness:
  "allocated cfg1 (particles (lone 17 50)) \<and> (0::nat) < particleCount cfg1 \<and>
   pX (enforceBounds cfg1 wide (particles (lone 17 50))) ! 0 = 20 \<and>
   pY (enforceBounds cfg1 wide (particles (lone 17 50))) ! 0 = 50 \<and>
   pX (enforceBounds_lite cfg1 wide (particles (lone 17 50))) ! 0 = 20 \<and>
   2 * radius cfg1 \<le> width wide \<and>
   wx (Particle_update_boundaries 20 100 droplet) = 12 \<and>
   enforceCoord_js (radius cfg1) 1000 (Fin 17) = Fin 20"
proof -
  have h: "(0::nat) < particleCount cfg1" by (simp add: cfg1_def CONFIG_V5_def)
  have v: "pX (particles (lone 17 50)) ! 0 = 17" "pY (particles (lone 17 50)) ! 0 = 50"
    "radius cfg1 = 20" "width wide = 1000" "height wide = 800"
    "wx droplet = 5" "wradius droplet = 12"
    by (simp_all add: lone_def cfg1_def CONFIG_V5_def wide_def droplet_def)
  note t = enforceBounds_clamps_to_radius[of cfg1 "particles (lone 17 50)" 0 wide 20 100 droplet 1000 17]
  have w: "2 * radius cfg1 \<le> width wide" by (simp add: v)
  show ?thesis
    using t lone_allocated[of 17 50] h w by (simp add: v)
qed


section \<open>How often the grid is built\<close>

lemma updatePhysics_builds:
  "gridBuilds (updatePhysics cfg dpr gain e st) = gridBuilds st + subSteps cfg"
  by (simp add: updatePhysics_def Let_def substeps_builds)

text \<open>
  In the frame shared by the V5, "Debug Mode" and "AR Water Simulation" generations the
  statement \<open>grid = {}\<close> and the insertion loop open every substep: a frame with
  \<open>subSteps = k\<close> builds the grid \<open>k\<close> times, each substep relaxes against the grid of
  the positions at its own start, and the frame is the \<open>k\<close>-fold iteration of that step
  between prediction and velocity reconstruction.
\<close>

theorem grid_rebuilt_every_substep:
  "gridBuilds (updatePhysics cfg dpr gain e st) = gridBuilds st + subSteps cfg \<and>
   grid (substep cfg e st) = buildGrid cfg (particles st) \<and>
   particles (substep cfg e st)
     = enforceBounds cfg e (relax cfg (buildGrid cfg (particles st)) (particles st)) \<and>
   particles (updatePhysics cfg dpr gain e st)
     = reconcile cfg ((substepP cfg e ^^ subSteps cfg) (predict cfg e dpr gain (particles st)))"
  by (simp add: updatePhysics_builds substep_grid substep_particles updatePhysics_pure)

text \<open>
  The "High Performance" generation builds the grid once per frame, whatever
  \<open>subSteps\<close> is, from the predicted positions.
\<close>

lemma substeps_lite_grid:
  "grid (substeps_lite cfg e k st) = grid st \<and> gridBuilds (substeps_lite cfg e k st) = gridBuilds st"
  by (induction k arbitrary: st) (simp_all add: substep_lite_def)

lemma updatePhysics_lite_builds:
  "gridBuilds (updatePhysics_lite cfg e st) = Suc (gridBuilds st) \<and>
   grid (updatePhysics_lite cfg e st) = buildGrid cfg (predict_lite cfg e (particles st))"
  by (simp add: updatePhysics_lite_def Let_def substeps_lite_grid rebuildGrid_def)

lemma upt3: "[0..<3] = [0, 1, 2]" by (simp add: upt_rec)

lemma built_particles: "particles three_built = particles three"
  by (simp add: three_built_def rebuildGrid_def predict_lite_def predictParticle_lite_def
      predictParticle_def enforceParticle_def cfg3_def CONFIG_LITE_def still_def three_def
      Let_def addAt_def upt3)

lemma built_grid:
  "grid three_built = [(1, 2) \<mapsto> [0], (3, 2) \<mapsto> [1], (2, 3) \<mapsto> [2]]"
  by (simp add: three_built_def rebuildGrid_def predict_lite_def predictParticle_lite_def
      predictParticle_def enforceParticle_def cfg3_def CONFIG_LITE_def still_def three_def
      Let_def addAt_def upt3 buildGrid_def gridInsert_def gridKey_def GRID_SIZE_def)

lemma relaxed_positions:
  "pX (particles three_relaxed) =
     [3999 / 100,
      10583393971631363112928657210919545645179563754879598870921 / 176429748535156250000000000000000000000000000000000000000,
      9748370249560043137071342789080454354820436245120401129079 / 176429748535156250000000000000000000000000000000000000000] \<and>
   pY (particles three_relaxed) =
     [50,
      7071002190786585028166466507854393494581017905280935967851 / 141143798828125000000000000000000000000000000000000000000,
      9019390875619664971833533492145606505418982094719064032149 / 141143798828125000000000000000000000000000000000000000000]"
  by (simp add: three_relaxed_def substep_lite_def built_particles built_grid
      relax_def relaxParticle_def findNeighbors_def candidates_def block3_def scan_def
      enforceBounds_lite_def enforceParticle_lite_def pressure_def nearPressure_def
      cfg3_def CONFIG_LITE_def still_def three_def GRID_SIZE_def
      Let_def addAt_def upt3 real_sqrt_divide)

lemma relaxed_grid: "grid three_relaxed = grid three_built"
  by (simp add: three_relaxed_def substep_lite_def)

lemma stale_scan: "findNeighbors cfg3 (grid three_relaxed) (particles three_relaxed) 0 = []"
  by (simp add: relaxed_grid built_grid findNeighbors_def candidates_def block3_def scan_def
      relaxed_positions cfg3_def CONFIG_LITE_def GRID_SIZE_def Let_def)

lemma fresh_scan:
  "map nid (findNeighbors cfg3 (buildGrid cfg3 (particles three_relaxed)) (particles three_relaxed) 0) = [1]"
  by (simp add: findNeighbors_def candidates_def block3_def scan_def buildGrid_def gridInsert_def
      gridKey_def relaxed_positions cfg3_def CONFIG_LITE_def GRID_SIZE_def Let_def upt3)

lemma lite_second_substep:
  "updatePhysics_lite cfg3 still three =
     (substep_lite cfg3 still three_relaxed)\<lparr> particles :=
        reconcile cfg3 (particles (substep_lite cfg3 still three_relaxed)) \<rparr>"
  by (simp add: updatePhysics_lite_def Let_def three_relaxed_def three_built_def
      cfg3_def CONFIG_LITE_def numeral_2_eq_2)

text \<open>
  C1 (the grid is rebuilt from the current positions at the start of every substep,
  so \<open>k\<close> times in a frame with \<open>subSteps = k\<close>) fails in the "High Performance"
  generation, which builds the grid before the loop over the substeps and never again.  With its constants (\<open>subSteps = 2\<close>) and three
  particles at rest at (39.99, 50), (60.02, 50) and (55.22, 64), the frame builds the grid
  once; its second substep starts from \<open>three_relaxed\<close> and reads the grid of the
  positions at the start of the frame.  Particle 1 has meanwhile moved from cell (3, 2)
  into cell (2, 2) and is closer than \<open>GRID_SIZE\<close> to particle 0, but the grid still
  lists it in cell (3, 2), outside the block around particle 0: the scan for particle 0
  finds no neighbour, where the grid of the current positions gives particle 1.
\<close>

theorem lite_second_substep_uses_stale_grid:
  "subSteps cfg3 = 2 \<and>
   gridBuilds (updatePhysics_lite cfg3 still three) = 1 \<and>
   updatePhysics_lite cfg3 still three =
     (substep_lite cfg3 still three_relaxed)\<lparr> particles :=
        reconcile cfg3 (particles (substep_lite cfg3 still three_relaxed)) \<rparr> \<and>
   grid three_relaxed = buildGrid cfg3 (particles three) \<and>
   grid three_relaxed (3, 2) = Some [1] \<and>
   buildGrid cfg3 (particles three_relaxed) (3, 2) = None \<and>
   buildGrid cfg3 (particles three_relaxed) (2, 2) = Some [1] \<and>
   (pX (particles three_relaxed) ! 1 - pX (particles three_relaxed) ! 0)
     * (pX (particles three_relaxed) ! 1 - pX (particles three_relaxed) ! 0)
   + (pY (particles three_relaxed) ! 1 - pY (particles three_relaxed) ! 0)
     * (pY (particles three_relaxed) ! 1 - pY (particles three_relaxed) ! 0)
     < GRID_SIZE cfg3 * GRID_SIZE cfg3 \<and>
   findNeighbors cfg3 (grid three_relaxed) (particles three_relaxed) 0 = [] \<and>
   map nid (findNeighbors cfg3 (buildGrid cfg3 (particles three_relaxed))
              (particles three_relaxed) 0) = [1]"
proof -
  have a: "subSteps cfg3 = 2" by (simp add: cfg3_def CONFIG_LITE_def)
  have b: "gridBuilds (updatePhysics_lite cfg3 still three) = 1"
    by (simp add: updatePhysics_lite_builds three_def)
  have c: "grid three_relaxed = buildGrid cfg3 (particles three)"
    using built_particles by (simp add: relaxed_grid three_built_def rebuildGrid_def)
  have d: "grid three_relaxed (3, 2) = Some [1]"
    by (simp add: relaxed_grid built_grid)
  have f: "buildGrid cfg3 (particles three_relaxed) (3, 2) = None"
    "buildGrid cfg3 (particles three_relaxed) (2, 2) = Some [1]"
    by (simp_all add: buildGrid_def gridInsert_def gridKey_def relaxed_positions cfg3_def
        CONFIG_LITE_def GRID_SIZE_def Let_def upt3)
  have g: "(pX (particles three_relaxed) ! 1 - pX (particles three_relaxed) ! 0)
     * (pX (particles three_relaxed) ! 1 - pX (particles three_relaxed) ! 0)
   + (pY (particles three_relaxed) ! 1 - pY (particles three_relaxed) ! 0)
     * (pY (particles three_relaxed) ! 1 - pY (particles three_relaxed) ! 0)
     < GRID_SIZE cfg3 * GRID_SIZE cfg3"
    by (simp add: relaxed_positions cfg3_def CONFIG_LITE_def GRID_SIZE_def)
  show ?thesis
    by (intro conjI a b lite_second_substep c d f g stale_scan fresh_scan)
qed

end
